theory Spec2Isabelle
  imports Main "HOL-Library.Word"
begin

section \<open>Environment of one API call\<close>

text \<open>
  The mesh code reads the wall clock, a monotonic millisecond clock and \<open>rand()\<close>, and it
  depends on whether \<open>calloc\<close>, \<open>socket\<close>/\<open>bind\<close>, \<open>sendto\<close> and thread creation succeed.
  One value of the record below gives the answers the system returns during one call of an
  API function; every function that consults the system takes it as its first argument.
\<close>

record env =
  time_now :: int       \<comment> \<open>\<open>time(NULL)\<close>, seconds\<close>
  clock_ms :: int       \<comment> \<open>\<open>get_time_ms()\<close>\<close>
  rand_val :: nat       \<comment> \<open>\<open>rand()\<close>\<close>
  alloc_ok :: bool      \<comment> \<open>\<open>calloc\<close> returns non-NULL\<close>
  bind_ok :: bool       \<comment> \<open>\<open>socket\<close> and \<open>bind\<close> succeed\<close>
  sendto_ok :: bool     \<comment> \<open>\<open>sendto\<close> returns a positive count\<close>
  thread_ok :: bool     \<comment> \<open>\<open>pthread_create\<close> succeeds\<close>
  host_name :: string   \<comment> \<open>\<open>gethostname\<close>\<close>

section \<open>swim\_gossip.h: constants and data\<close>

definition SWIM_NODE_ID_SIZE :: nat where "SWIM_NODE_ID_SIZE = 64"
definition SWIM_DEFAULT_PORT :: "16 word" where "SWIM_DEFAULT_PORT = 7946"
definition SWIM_DEFAULT_INTERVAL :: "32 word" where "SWIM_DEFAULT_INTERVAL = 1000"
definition SWIM_PROBE_TIMEOUT :: "32 word" where "SWIM_PROBE_TIMEOUT = 500"
definition SWIM_SUSPECT_TIMEOUT :: "32 word" where "SWIM_SUSPECT_TIMEOUT = 5000"

text \<open>
  \<open>swim_node_state_t\<close> is a C enum, that is an integer type with four named values. The
  handler stores a byte taken from the wire into it through a cast, so the model keeps the
  integer and names the four enumerators.
\<close>

type_synonym swim_node_state_t = nat

definition NODE_STATE_ALIVE :: swim_node_state_t where "NODE_STATE_ALIVE = 0"
definition NODE_STATE_SUSPECT :: swim_node_state_t where "NODE_STATE_SUSPECT = 1"
definition NODE_STATE_DEAD :: swim_node_state_t where "NODE_STATE_DEAD = 2"
definition NODE_STATE_LEFT :: swim_node_state_t where "NODE_STATE_LEFT = 3"

lemmas node_state_defs =
  NODE_STATE_ALIVE_def NODE_STATE_SUSPECT_def NODE_STATE_DEAD_def NODE_STATE_LEFT_def

definition SWIM_MSG_PING :: "8 word" where "SWIM_MSG_PING = 0"
definition SWIM_MSG_PING_REQ :: "8 word" where "SWIM_MSG_PING_REQ = 1"
definition SWIM_MSG_ACK :: "8 word" where "SWIM_MSG_ACK = 2"
definition SWIM_MSG_SYNC :: "8 word" where "SWIM_MSG_SYNC = 3"
definition SWIM_MSG_COMPOUND :: "8 word" where "SWIM_MSG_COMPOUND = 4"

lemmas msg_type_defs =
  SWIM_MSG_PING_def SWIM_MSG_PING_REQ_def SWIM_MSG_ACK_def SWIM_MSG_SYNC_def
  SWIM_MSG_COMPOUND_def

text \<open>\<open>swim_node_t\<close>; the \<open>next\<close> link is the tail of the list that holds the node.\<close>

record swim_node =
  node_id :: string
  node_address :: string
  node_port :: "16 word"
  node_state :: swim_node_state_t
  node_incarnation :: "32 word"
  node_last_seen :: int
  node_state_change_time :: int
  node_ping_seq :: "32 word"
  node_is_local :: bool
  node_is_main_node :: bool

text \<open>\<open>swim_message_header_t\<close> and the four message structs, as values handed to \<open>sendto\<close>.\<close>

record swim_message_header =
  hdr_version :: "8 word"
  hdr_type :: "8 word"
  hdr_payload_len :: "16 word"
  hdr_seq_num :: "32 word"
  hdr_sender_id :: string
  hdr_incarnation :: "32 word"

text \<open>\<open>swim_node_update_t\<close>: one record of a Sync payload.\<close>

record swim_node_update =
  upd_id :: string
  upd_address :: string
  upd_port :: "16 word"
  upd_state :: "8 word"
  upd_incarnation :: "32 word"
  upd_is_main_node :: "8 word"

datatype swim_message =
    Ping swim_message_header string
  | PingReq swim_message_header string string
  | Ack swim_message_header string
  | Sync swim_message_header "32 word" "swim_node_update list"

text \<open>A datagram handed to \<open>sendto\<close>: destination address, destination port, message.\<close>

type_synonym sent_datagram = "string \<times> 16 word \<times> swim_message"

text \<open>A call of the \<open>on_node_event\<close> callback: node id, old state, new state.\<close>

type_synonym node_event = "string \<times> swim_node_state_t \<times> swim_node_state_t"

text \<open>
  \<open>swim_context_t\<close>. The socket, thread and lock are not data of the model. The callback
  pointer \<open>on_node_event\<close> is kept as a flag (registered or not); each invocation is
  appended to \<open>node_events\<close>, and each datagram passed to \<open>sendto\<close> on the context's socket
  is appended to \<open>outbox\<close>.
\<close>

record swim_context =
  local_id :: string
  local_address :: string
  ctx_port :: "16 word"
  ctx_incarnation :: "32 word"
  seq_num :: "32 word"
  nodes :: "swim_node list"
  node_count :: "32 word"
  is_running :: bool
  ctx_is_main_node :: bool
  gossip_interval_ms :: "32 word"
  probe_timeout_ms :: "32 word"
  suspect_timeout_ms :: "32 word"
  on_node_event :: bool
  messages_sent :: "64 word"
  messages_received :: "64 word"
  probe_success :: "64 word"
  probe_failure :: "64 word"
  node_events :: "node_event list"
  outbox :: "sent_datagram list"

section \<open>swim\_gossip.c: node list\<close>

text \<open>
  \<open>strncpy(dst, src, n - 1)\<close> into a zeroed buffer of \<open>n\<close> bytes: the copy stops at the
  first NUL of the source or after \<open>n - 1\<close> bytes. The strings kept in the structs are C
  strings, that is they hold no NUL.
\<close>

definition strncpy0 :: "nat \<Rightarrow> string \<Rightarrow> string" where
  "strncpy0 n src = take (n - 1) (takeWhile (\<lambda>c. c \<noteq> CHR 0x00) src)"

definition cstring :: "string \<Rightarrow> bool" where
  "cstring s \<longleftrightarrow> CHR 0x00 \<notin> set s"

text \<open>
  Memory errors of the C code are values of the model. \<open>OverRead\<close>: a load through the
  \<open>data\<close> pointer of \<open>swim_handle_message\<close> at an offset that is not below \<open>len\<close>.
  \<open>OverWrite\<close>: a store beyond the 4096-byte stack buffer of \<open>swim_send_sync\<close>.
  \<open>BadStateName\<close>: a load from the four-entry table \<open>state_names\<close> of
  \<open>swim_update_node_state\<close> at an index that is not below 4.
\<close>

datatype mem_error = OverRead | OverWrite | BadStateName

definition ebind :: "'e + 'a \<Rightarrow> ('a \<Rightarrow> 'e + 'b) \<Rightarrow> 'e + 'b" where
  "ebind m f = (case m of Inl err \<Rightarrow> Inl err | Inr x \<Rightarrow> f x)"

definition swim_create_node :: "env \<Rightarrow> string \<Rightarrow> string \<Rightarrow> 16 word \<Rightarrow> swim_node option" where
  "swim_create_node e i addr p =
     (if \<not> alloc_ok e then None
      else Some \<lparr> node_id = strncpy0 SWIM_NODE_ID_SIZE i,
                  node_address = strncpy0 64 addr,
                  node_port = p,
                  node_state = NODE_STATE_ALIVE,
                  node_incarnation = 1,
                  node_last_seen = time_now e,
                  node_state_change_time = time_now e,
                  node_ping_seq = 0,
                  node_is_local = False,
                  node_is_main_node = False \<rparr>)"

text \<open>
  A \<open>swim_node_t *\<close> into the context's list is the position of the node in the list:
  \<open>swim_find_node\<close> returns the first node whose id compares equal.
\<close>

fun find_first :: "('a \<Rightarrow> bool) \<Rightarrow> 'a list \<Rightarrow> nat option" where
  "find_first P [] = None"
| "find_first P (x # xs) = (if P x then Some 0 else map_option Suc (find_first P xs))"

definition swim_find_node :: "swim_context \<Rightarrow> string \<Rightarrow> nat option" where
  "swim_find_node ctx i = find_first (\<lambda>n. node_id n = i) (nodes ctx)"

definition swim_get_local_node :: "swim_context \<Rightarrow> nat option" where
  "swim_get_local_node ctx = find_first node_is_local (nodes ctx)"

definition fire_node_event :: "swim_context \<Rightarrow> node_event \<Rightarrow> swim_context" where
  "fire_node_event ctx ev =
     (if on_node_event ctx then ctx\<lparr>node_events := node_events ctx @ [ev]\<rparr> else ctx)"

text \<open>
  \<open>swim_update_node_state\<close>. After the early return for an unchanged state the source
  builds its log line from \<open>state_names[old_state]\<close> and \<open>state_names[new_state]\<close>; the
  table has four entries, so either index must be below 4.
\<close>

definition swim_update_node_state ::
  "env \<Rightarrow> swim_context \<Rightarrow> nat \<Rightarrow> swim_node_state_t \<Rightarrow> mem_error + swim_context" where
  "swim_update_node_state e ctx k new_state =
     (let node = nodes ctx ! k; old_state = node_state node in
      if old_state = new_state then Inr ctx
      else if 4 \<le> old_state \<or> 4 \<le> new_state then Inl BadStateName
      else Inr (fire_node_event
             (ctx\<lparr>nodes := (nodes ctx)[k := node\<lparr>node_state := new_state,
                                                 node_state_change_time := time_now e\<rparr>]\<rparr>)
             (node_id node, old_state, new_state)))"

definition swim_add_node :: "env \<Rightarrow> swim_context \<Rightarrow> swim_node \<Rightarrow> mem_error + swim_context" where
  "swim_add_node e ctx node =
     (case find_first (\<lambda>n. node_id n = node_id node) (nodes ctx) of
        Some k \<Rightarrow>
          (let existing = nodes ctx ! k;
               ctx1 = ctx\<lparr>nodes := (nodes ctx)[k := existing\<lparr>node_incarnation := node_incarnation node,
                                                               node_last_seen := node_last_seen node\<rparr>]\<rparr>
           in if node_state existing \<noteq> node_state node
              then swim_update_node_state e ctx1 k (node_state node) else Inr ctx1)
      | None \<Rightarrow>
          Inr (fire_node_event (ctx\<lparr>nodes := node # nodes ctx, node_count := node_count ctx + 1\<rparr>)
                 (node_id node, NODE_STATE_DEAD, NODE_STATE_ALIVE)))"

text \<open>\<open>swim_get_node_count\<close>: the loop counts in a \<open>uint32_t\<close>.\<close>

fun count_state :: "swim_node list \<Rightarrow> swim_node_state_t \<Rightarrow> 32 word \<Rightarrow> 32 word" where
  "count_state [] s count = count"
| "count_state (n # ns) s count = count_state ns s (if node_state n = s then count + 1 else count)"

definition swim_get_node_count :: "swim_context \<Rightarrow> swim_node_state_t \<Rightarrow> 32 word" where
  "swim_get_node_count ctx s = count_state (nodes ctx) s 0"

section \<open>swim\_gossip.c: initialisation and the main-node flag\<close>

text \<open>
  \<open>swim_init\<close> adds the local node to the empty list of the new context, where
  \<open>swim_add_node\<close> takes its new-node branch; that branch has no memory error, so the
  \<open>Inl\<close> case below is never taken.
\<close>

definition swim_init :: "env \<Rightarrow> string \<Rightarrow> 16 word \<Rightarrow> 32 word \<Rightarrow> swim_context option" where
  "swim_init e lid p interval =
     (if \<not> alloc_ok e then None
      else if \<not> bind_ok e then None
      else
        (let ctx = \<lparr> local_id = strncpy0 SWIM_NODE_ID_SIZE lid,
                     local_address = host_name e,
                     ctx_port = (if p \<noteq> 0 then p else SWIM_DEFAULT_PORT),
                     ctx_incarnation = 1,
                     seq_num = 0,
                     nodes = [],
                     node_count = 0,
                     is_running = False,
                     ctx_is_main_node = False,
                     gossip_interval_ms = (if interval \<noteq> 0 then interval else SWIM_DEFAULT_INTERVAL),
                     probe_timeout_ms = SWIM_PROBE_TIMEOUT,
                     suspect_timeout_ms = SWIM_SUSPECT_TIMEOUT,
                     on_node_event = False,
                     messages_sent = 0,
                     messages_received = 0,
                     probe_success = 0,
                     probe_failure = 0,
                     node_events = [],
                     outbox = [] \<rparr>
         in case swim_create_node e lid ''127.0.0.1'' (ctx_port ctx) of
              None \<Rightarrow> Some ctx
            | Some l \<Rightarrow>
                (case swim_add_node e ctx (l\<lparr>node_is_local := True\<rparr>) of
                   Inr ctx1 \<Rightarrow> Some ctx1
                 | Inl err \<Rightarrow> None)))"

definition swim_set_main_node :: "swim_context \<Rightarrow> bool \<Rightarrow> swim_context" where
  "swim_set_main_node ctx is_main =
     (let ctx1 = ctx\<lparr>ctx_is_main_node := is_main\<rparr> in
      case swim_get_local_node ctx1 of
        None \<Rightarrow> ctx1
      | Some k \<Rightarrow>
          ctx1\<lparr>nodes := (nodes ctx1)[k := (nodes ctx1 ! k)\<lparr>node_is_main_node := is_main\<rparr>],
               ctx_incarnation := ctx_incarnation ctx1 + 1\<rparr>)"

section \<open>swim\_gossip.c: sending\<close>

text \<open>
  Sizes and offsets of the wire structs under the usual C layout (natural alignment):
  the header is 1 + 1 + 2 + 4 + 64 + 4 bytes, \<open>swim_sync_t\<close> adds the 4-byte \<open>node_count\<close>,
  and \<open>swim_node_update_t\<close> is 64 + 64 + 2 + 1 (+1 padding) + 4 + 1 (+3 padding) bytes.
\<close>

definition SIZEOF_HEADER :: nat where "SIZEOF_HEADER = 76"
definition SIZEOF_SYNC :: nat where "SIZEOF_SYNC = 80"
definition SIZEOF_UPDATE :: nat where "SIZEOF_UPDATE = 140"
definition SYNC_BUFFER_SIZE :: nat where "SYNC_BUFFER_SIZE = 4096"

definition send_header :: "swim_context \<Rightarrow> 8 word \<Rightarrow> 16 word \<Rightarrow> 32 word \<Rightarrow> swim_message_header" where
  "send_header ctx ty plen sq =
     \<lparr> hdr_version = 1, hdr_type = ty, hdr_payload_len = plen, hdr_seq_num = sq,
       hdr_sender_id = strncpy0 SWIM_NODE_ID_SIZE (local_id ctx),
       hdr_incarnation = ctx_incarnation ctx \<rparr>"

text \<open>\<open>sendto\<close> on the context's socket towards a node's address and port.\<close>

definition sendto :: "swim_context \<Rightarrow> swim_node \<Rightarrow> swim_message \<Rightarrow> swim_context" where
  "sendto ctx target m = ctx\<lparr>outbox := outbox ctx @ [(node_address target, node_port target, m)]\<rparr>"

definition swim_send_ping :: "env \<Rightarrow> swim_context \<Rightarrow> nat \<Rightarrow> swim_context" where
  "swim_send_ping e ctx k =
     (let target = nodes ctx ! k;
          ctx1 = ctx\<lparr>seq_num := seq_num ctx + 1\<rparr>;
          h = send_header ctx1 SWIM_MSG_PING 0 (seq_num ctx1);
          ctx2 = sendto ctx1 target (Ping h (strncpy0 SWIM_NODE_ID_SIZE (node_id target)))
      in if sendto_ok e
         then ctx2\<lparr>messages_sent := messages_sent ctx2 + 1,
                   nodes := (nodes ctx2)[k := target\<lparr>node_ping_seq := hdr_seq_num h\<rparr>]\<rparr>
         else ctx2)"

definition swim_send_ping_req :: "env \<Rightarrow> swim_context \<Rightarrow> nat \<Rightarrow> nat \<Rightarrow> swim_context" where
  "swim_send_ping_req e ctx via k =
     (let target = nodes ctx ! k;
          ctx1 = ctx\<lparr>seq_num := seq_num ctx + 1\<rparr>;
          h = send_header ctx1 SWIM_MSG_PING_REQ 0 (seq_num ctx1);
          ctx2 = sendto ctx1 (nodes ctx ! via)
                   (PingReq h (strncpy0 SWIM_NODE_ID_SIZE (node_id target))
                              (strncpy0 SWIM_NODE_ID_SIZE (local_id ctx)))
      in if sendto_ok e then ctx2\<lparr>messages_sent := messages_sent ctx2 + 1\<rparr> else ctx2)"

definition swim_send_ack :: "env \<Rightarrow> swim_context \<Rightarrow> nat \<Rightarrow> 32 word \<Rightarrow> swim_context" where
  "swim_send_ack e ctx k sq =
     (let target = nodes ctx ! k;
          h = send_header ctx SWIM_MSG_ACK 0 sq;
          ctx2 = sendto ctx target (Ack h (strncpy0 SWIM_NODE_ID_SIZE (node_id target)))
      in if sendto_ok e then ctx2\<lparr>messages_sent := messages_sent ctx2 + 1\<rparr> else ctx2)"

definition node_update_of :: "swim_node \<Rightarrow> swim_node_update" where
  "node_update_of n =
     \<lparr> upd_id = strncpy0 SWIM_NODE_ID_SIZE (node_id n),
       upd_address = strncpy0 64 (node_address n),
       upd_port = node_port n,
       upd_state = of_nat (node_state n),
       upd_incarnation = node_incarnation n,
       upd_is_main_node = (if node_is_main_node n then 1 else 0) \<rparr>"

text \<open>
  \<open>swim_send_sync\<close> copies the first 50 nodes into \<open>buffer[4096]\<close> behind the 80-byte
  \<open>swim_sync_t\<close>. The last store into record \<open>count - 1\<close> is its \<open>is_main_node\<close> byte at
  offset 136 of the record, so the stores stay inside the buffer only while
  \<open>80 + 140 * (count - 1) + 137 \<le> 4096\<close>.
\<close>

definition swim_send_sync :: "env \<Rightarrow> swim_context \<Rightarrow> nat \<Rightarrow> mem_error + swim_context" where
  "swim_send_sync e ctx k =
     (let target = nodes ctx ! k;
          ctx1 = ctx\<lparr>seq_num := seq_num ctx + 1\<rparr>;
          updates = map node_update_of (take 50 (nodes ctx1));
          count = length updates
      in if 0 < count \<and> SYNC_BUFFER_SIZE < SIZEOF_SYNC + SIZEOF_UPDATE * (count - 1) + 137
         then Inl OverWrite
         else
           (let h = send_header ctx1 SWIM_MSG_SYNC (of_nat (count * SIZEOF_UPDATE)) (seq_num ctx1);
                ctx2 = sendto ctx1 target (Sync h (of_nat count) updates)
            in Inr (if sendto_ok e then ctx2\<lparr>messages_sent := messages_sent ctx2 + 1\<rparr>
                    else ctx2)))"

section \<open>swim\_gossip.c: receiving\<close>

text \<open>
  A received datagram is the list of its \<open>len\<close> bytes. The handler reads it through
  pointers into it. Each kind of read is modelled with the bytes it touches, and fails
  where the C code would load from an offset that is not below \<open>len\<close>.
\<close>

text \<open>A load of an \<open>n\<close>-byte field at an offset.\<close>

definition rd :: "string \<Rightarrow> nat \<Rightarrow> nat \<Rightarrow> mem_error + string" where
  "rd data off n = (if off + n \<le> length data then Inr (take n (drop off data)) else Inl OverRead)"

text \<open>Integers are in host byte order; the model fixes a little-endian host.\<close>

definition le_word :: "string \<Rightarrow> 'a::len word" where
  "le_word bs = foldr (\<lambda>b w. of_char b + 256 * w) bs 0"

definition rd_word :: "string \<Rightarrow> nat \<Rightarrow> nat \<Rightarrow> mem_error + 'a::len word" where
  "rd_word data off n = ebind (rd data off n) (\<lambda>bs. Inr (le_word bs))"

text \<open>
  \<open>strcmp(s, data + off)\<close> for a C string \<open>s\<close> of the context. The comparison walks both
  strings and stops at the first position where they differ or where \<open>s\<close> ends; it reads
  the datagram up to that position. It runs past the datagram exactly when the bytes
  from \<open>off\<close> to the end are an initial part of \<open>s\<close>. Otherwise the result is whether
  the datagram holds \<open>s\<close> followed by a NUL at \<open>off\<close>.
\<close>

definition strcmp_wire :: "string \<Rightarrow> string \<Rightarrow> nat \<Rightarrow> mem_error + bool" where
  "strcmp_wire s data off =
     (let avail = drop off data in
      if length avail \<le> length s \<and> take (length avail) s = avail then Inl OverRead
      else Inr (take (Suc (length s)) avail = s @ [CHR 0x00]))"

text \<open>\<open>swim_find_node(ctx, data + off)\<close>: the \<open>strcmp\<close> of each node's id, in list
  order, until one compares equal.\<close>

fun find_wire :: "swim_node list \<Rightarrow> string \<Rightarrow> nat \<Rightarrow> mem_error + nat option" where
  "find_wire [] data off = Inr None"
| "find_wire (n # ns) data off =
     ebind (strcmp_wire (node_id n) data off) (\<lambda>eq.
       if eq then Inr (Some 0)
       else ebind (find_wire ns data off) (\<lambda>r. Inr (map_option Suc r)))"

text \<open>
  \<open>strncpy(dst, data + off, n - 1)\<close> into a zeroed buffer of \<open>n\<close> bytes: it reads up to
  the first NUL, at most \<open>n - 1\<close> bytes, and runs past the datagram when the datagram
  ends before either.
\<close>

definition strncpy_wire :: "nat \<Rightarrow> string \<Rightarrow> nat \<Rightarrow> mem_error + string" where
  "strncpy_wire n data off =
     (let avail = take (n - 1) (drop off data);
          s = takeWhile (\<lambda>c. c \<noteq> CHR 0x00) avail
      in if s = avail \<and> length avail < n - 1 then Inl OverRead else Inr s)"

text \<open>
  The header struct laid over the first 76 bytes; the handler uses it only after it has
  checked that the datagram has that many bytes. \<open>hdr_sender_id\<close> is the string held by
  the 64-byte field \<open>sender_id\<close>, cut at the end of the field. The handler itself passes
  \<open>header->sender_id\<close> to \<open>swim_find_node\<close> and \<open>swim_create_node\<close> as a pointer; those
  reads are \<open>find_wire\<close> and \<open>strncpy_wire\<close> at offset 8.
\<close>

definition decode_header :: "string \<Rightarrow> swim_message_header" where
  "decode_header data =
     \<lparr> hdr_version = le_word (take 1 data),
       hdr_type = le_word (take 1 (drop 1 data)),
       hdr_payload_len = le_word (take 2 (drop 2 data)),
       hdr_seq_num = le_word (take 4 (drop 4 data)),
       hdr_sender_id = takeWhile (\<lambda>c. c \<noteq> CHR 0x00) (take 64 (drop 8 data)),
       hdr_incarnation = le_word (take 4 (drop 72 data)) \<rparr>"

text \<open>
  The body of the \<open>for\<close> loop of the \<open>SWIM_MSG_SYNC\<close> case for the record at offset \<open>off\<close>
  of the datagram, with the reads in the order of the source: the id is compared with
  the local id and looked up; for an unknown id the port is loaded as an argument of
  \<open>swim_create_node\<close>, which allocates and then copies id and address, and then state,
  incarnation and main flag are loaded; for a known id the incarnation is loaded, and
  the main flag and the state only if the incarnation is greater.
\<close>

definition sync_record :: "env \<Rightarrow> string \<Rightarrow> nat \<Rightarrow> swim_context \<Rightarrow> mem_error + swim_context" where
  "sync_record e data off ctx =
     ebind (strcmp_wire (local_id ctx) data off) (\<lambda>is_local.
       if is_local then Inr ctx
       else ebind (find_wire (nodes ctx) data off) (\<lambda>found.
         case found of
           None \<Rightarrow>
             ebind (rd_word data (off + 128) 2) (\<lambda>p.
               if \<not> alloc_ok e then Inr ctx
               else
                 ebind (strncpy_wire SWIM_NODE_ID_SIZE data off) (\<lambda>i.
                 ebind (strncpy_wire 64 data (off + 64)) (\<lambda>addr.
                   case swim_create_node e i addr p of
                     None \<Rightarrow> Inr ctx
                   | Some node \<Rightarrow>
                       ebind (rd_word data (off + 130) 1) (\<lambda>st.
                       ebind (rd_word data (off + 132) 4) (\<lambda>inc.
                       ebind (rd_word data (off + 136) 1) (\<lambda>im.
                         swim_add_node e ctx
                           (node\<lparr>node_state := unat (st :: 8 word),
                                 node_incarnation := inc,
                                 node_is_main_node := (im \<noteq> (0 :: 8 word))\<rparr>)))))))
         | Some k \<Rightarrow>
             ebind (rd_word data (off + 132) 4) (\<lambda>inc.
               if node_incarnation (nodes ctx ! k) < inc
               then
                 ebind (rd_word data (off + 136) 1) (\<lambda>im.
                 ebind (rd_word data (off + 130) 1) (\<lambda>st.
                   (let ctx1 = ctx\<lparr>nodes := (nodes ctx)[k := (nodes ctx ! k)
                                       \<lparr>node_incarnation := inc,
                                        node_is_main_node := (im \<noteq> (0 :: 8 word))\<rparr>]\<rparr>
                    in if node_state (nodes ctx1 ! k) \<noteq> unat (st :: 8 word)
                       then swim_update_node_state e ctx1 k (unat st) else Inr ctx1)))
               else Inr ctx)))"

text \<open>A loop counter below its bound can be incremented without wrapping.\<close>

lemma unat_inc_less:
  fixes i n :: "'a::len word"
  assumes "i < n"
  shows "unat (i + 1) = Suc (unat i)"
proof -
  from assms have a: "unat i < unat n" by (simp add: word_less_nat_alt)
  have c: "unat n < 2 ^ LENGTH('a)" by (rule unsigned_less)
  from a c have "Suc (unat i) < 2 ^ LENGTH('a)" by linarith
  then show ?thesis by (simp add: unat_word_ariths)
qed

text \<open>The loop \<open>for (i = 0; i < sync->node_count; i++)\<close> over the records in the datagram.\<close>

function sync_loop ::
  "env \<Rightarrow> string \<Rightarrow> 32 word \<Rightarrow> 32 word \<Rightarrow> swim_context \<Rightarrow> mem_error + swim_context" where
  "sync_loop e data n i ctx =
     (if i < n
      then ebind (sync_record e data (SIZEOF_SYNC + SIZEOF_UPDATE * unat i) ctx)
             (\<lambda>ctx1. sync_loop e data n (i + 1) ctx1)
      else Inr ctx)"
  by pat_completeness auto
termination
  by (relation "measure (\<lambda>(e, data, n, i, ctx). unat n - unat i)")
     (auto simp: unat_inc_less word_less_nat_alt)

declare sync_loop.simps [simp del]

text \<open>
  The same loop body for a record whose fields are given as values. On a record that is
  complete in the datagram the two agree (\<open>sync_record_decoded\<close> below).
\<close>

definition sync_apply_update ::
  "env \<Rightarrow> swim_context \<Rightarrow> swim_node_update \<Rightarrow> mem_error + swim_context" where
  "sync_apply_update e ctx u =
     (if upd_id u = local_id ctx then Inr ctx
      else case swim_find_node ctx (upd_id u) of
        None \<Rightarrow>
          (case swim_create_node e (upd_id u) (upd_address u) (upd_port u) of
             None \<Rightarrow> Inr ctx
           | Some node \<Rightarrow>
               swim_add_node e ctx
                 (node\<lparr>node_state := unat (upd_state u),
                       node_incarnation := upd_incarnation u,
                       node_is_main_node := (upd_is_main_node u \<noteq> 0)\<rparr>))
      | Some k \<Rightarrow>
          (if node_incarnation (nodes ctx ! k) < upd_incarnation u
           then
             (let ctx1 = ctx\<lparr>nodes := (nodes ctx)[k := (nodes ctx ! k)
                                 \<lparr>node_incarnation := upd_incarnation u,
                                  node_is_main_node := (upd_is_main_node u \<noteq> 0)\<rparr>]\<rparr>
              in if node_state (nodes ctx1 ! k) \<noteq> unat (upd_state u)
                 then swim_update_node_state e ctx1 k (unat (upd_state u)) else Inr ctx1)
           else Inr ctx))"

text \<open>The sender of a datagram: \<open>inet_ntop\<close> of the address and \<open>ntohs\<close> of the port.\<close>

type_synonym sockaddr_in = "string \<times> 16 word"

definition refresh_sender ::
  "env \<Rightarrow> swim_context \<Rightarrow> swim_message_header \<Rightarrow> nat \<Rightarrow> mem_error + swim_context" where
  "refresh_sender e ctx h k =
     (let ctx1 = ctx\<lparr>nodes := (nodes ctx)[k := (nodes ctx ! k)\<lparr>node_last_seen := time_now e\<rparr>]\<rparr> in
      ebind (if node_state (nodes ctx1 ! k) \<noteq> NODE_STATE_ALIVE
             then swim_update_node_state e ctx1 k NODE_STATE_ALIVE else Inr ctx1)
        (\<lambda>ctx2.
           Inr (if node_incarnation (nodes ctx2 ! k) < hdr_incarnation h
                then ctx2\<lparr>nodes := (nodes ctx2)[k := (nodes ctx2 ! k)
                                        \<lparr>node_incarnation := hdr_incarnation h\<rparr>]\<rparr>
                else ctx2)))"

text \<open>
  \<open>swim_handle_message\<close>. The sender is looked up by the id in the header; an unknown
  sender of anything but a Sync is created and looked up again.
\<close>

definition find_or_create_sender ::
  "env \<Rightarrow> swim_context \<Rightarrow> sockaddr_in \<Rightarrow> string \<Rightarrow> swim_message_header
     \<Rightarrow> mem_error + (swim_context \<times> nat option)" where
  "find_or_create_sender e ctx frm data h =
     ebind (find_wire (nodes ctx) data 8) (\<lambda>found.
       case found of
         Some k \<Rightarrow> Inr (ctx, Some k)
       | None \<Rightarrow>
           if hdr_type h \<noteq> SWIM_MSG_SYNC
           then
             (if \<not> alloc_ok e then Inr (ctx, None)
              else
                ebind (strncpy_wire SWIM_NODE_ID_SIZE data 8) (\<lambda>sid.
                  case swim_create_node e sid (fst frm) (snd frm) of
                    None \<Rightarrow> Inr (ctx, None)
                  | Some n \<Rightarrow>
                      ebind (swim_add_node e ctx n) (\<lambda>c.
                      ebind (find_wire (nodes c) data 8) (\<lambda>sender. Inr (c, sender)))))
           else Inr (ctx, None))"

definition swim_handle_message ::
  "env \<Rightarrow> swim_context \<Rightarrow> sockaddr_in \<Rightarrow> string \<Rightarrow> mem_error + swim_context" where
  "swim_handle_message e ctx frm data =
     (if length data < SIZEOF_HEADER then Inr ctx
      else
        (let h = decode_header data;
             ctx1 = ctx\<lparr>messages_received := messages_received ctx + 1\<rparr>
         in ebind (find_or_create_sender e ctx1 frm data h) (\<lambda>(ctx2, sender).
            ebind (case sender of None \<Rightarrow> Inr ctx2 | Some k \<Rightarrow> refresh_sender e ctx2 h k)
              (\<lambda>ctx3.
                 if hdr_type h = SWIM_MSG_PING
                 then Inr (case sender of None \<Rightarrow> ctx3
                           | Some k \<Rightarrow> swim_send_ack e ctx3 k (hdr_seq_num h))
                 else if hdr_type h = SWIM_MSG_PING_REQ
                 then ebind (find_wire (nodes ctx3) data SIZEOF_HEADER) (\<lambda>target.
                        Inr (case target of
                               None \<Rightarrow> ctx3
                             | Some t \<Rightarrow> swim_send_ping e ctx3 t))
                 else if hdr_type h = SWIM_MSG_ACK
                 then (case sender of None \<Rightarrow> Inr ctx3
                       | Some k \<Rightarrow>
                           (let c = ctx3\<lparr>probe_success := probe_success ctx3 + 1\<rparr>
                            in if node_state (nodes c ! k) = NODE_STATE_SUSPECT
                               then swim_update_node_state e c k NODE_STATE_ALIVE
                               else Inr c))
                 else if hdr_type h = SWIM_MSG_SYNC
                 then ebind (rd_word data SIZEOF_HEADER 4) (\<lambda>node_count.
                        sync_loop e data node_count 0 ctx3)
                 else Inr ctx3))))"

definition swim_process ::
  "env \<Rightarrow> swim_context \<Rightarrow> (sockaddr_in \<times> string) list \<Rightarrow> mem_error + swim_context" where
  "swim_process e ctx received =
     foldl (\<lambda>r (frm, data). ebind r (\<lambda>c. swim_handle_message e c frm (take 4096 data)))
       (Inr ctx) received"

section \<open>swim\_gossip.c: the gossip round\<close>

text \<open>
  \<open>difftime(now, last_seen) * 1000\<close> is a double; for whole seconds the product and the
  comparison with the timeout are exact, so the model computes them on integers.
\<close>

definition check_timeout_node :: "env \<Rightarrow> swim_context \<Rightarrow> nat \<Rightarrow> mem_error + swim_context" where
  "check_timeout_node e ctx k =
     (let node = nodes ctx ! k in
      if node_is_local node then Inr ctx
      else
        (let since_seen = (time_now e - node_last_seen node) * 1000 in
         if node_state node = NODE_STATE_ALIVE \<and> uint (probe_timeout_ms ctx) < since_seen
         then ebind (swim_update_node_state e ctx k NODE_STATE_SUSPECT)
                (\<lambda>c. Inr (c\<lparr>probe_failure := probe_failure c + 1\<rparr>))
         else if node_state node = NODE_STATE_SUSPECT \<and> uint (suspect_timeout_ms ctx) < since_seen
         then swim_update_node_state e ctx k NODE_STATE_DEAD
         else Inr ctx))"

definition swim_check_timeouts :: "env \<Rightarrow> swim_context \<Rightarrow> mem_error + swim_context" where
  "swim_check_timeouts e ctx =
     foldl (\<lambda>r k. ebind r (\<lambda>c. check_timeout_node e c k)) (Inr ctx) [0..<length (nodes ctx)]"

definition probe_eligible :: "swim_node \<Rightarrow> bool" where
  "probe_eligible n \<longleftrightarrow>
     \<not> node_is_local n \<and> (node_state n = NODE_STATE_ALIVE \<or> node_state n = NODE_STATE_SUSPECT)"

definition swim_select_random_node :: "env \<Rightarrow> swim_context \<Rightarrow> nat option" where
  "swim_select_random_node e ctx =
     (if node_count ctx = 0 then None
      else
        (let eligible = filter (\<lambda>k. probe_eligible (nodes ctx ! k)) [0..<length (nodes ctx)] in
         if eligible = [] then None
         else Some (eligible ! (rand_val e mod length eligible))))"

text \<open>
  \<open>swim_gossip_round\<close> keeps its round counter in \<open>static int sync_counter\<close>, a variable
  of the function and so of the process, not of the context. The model passes the
  counter in and returns it next to the context.
\<close>

definition swim_gossip_round ::
  "env \<Rightarrow> int \<Rightarrow> swim_context \<Rightarrow> mem_error + (int \<times> swim_context)" where
  "swim_gossip_round e sync_counter ctx =
     ebind (swim_check_timeouts e ctx) (\<lambda>ctx1.
       case swim_select_random_node e ctx1 of
         None \<Rightarrow> Inr (sync_counter, ctx1)
       | Some target \<Rightarrow>
           (let ctx2 = swim_send_ping e ctx1 target;
                sync_counter1 = sync_counter + 1
            in if 5 \<le> sync_counter1
               then ebind (swim_send_sync e ctx2 target) (\<lambda>ctx3. Inr (0, ctx3))
               else Inr (sync_counter1, ctx2)))"

section \<open>swim\_gossip.c: start and join\<close>

definition swim_start :: "env \<Rightarrow> swim_context \<Rightarrow> bool \<times> swim_context" where
  "swim_start e ctx =
     (if is_running ctx then (True, ctx)
      else if thread_ok e then (True, ctx\<lparr>is_running := True\<rparr>)
      else (False, ctx\<lparr>is_running := False\<rparr>))"

text \<open>\<open>printf\<close>'s \<open>%d\<close> and \<open>%ld\<close>.\<close>

definition digit_char :: "nat \<Rightarrow> char" where
  "digit_char d = ''0123456789'' ! d"

fun dec_nat :: "nat \<Rightarrow> string" where
  "dec_nat n = (if n < 10 then [digit_char n]
                else dec_nat (n div 10) @ [digit_char (n mod 10)])"

declare dec_nat.simps [simp del]

definition dec_int :: "int \<Rightarrow> string" where
  "dec_int i = (if i < 0 then CHR ''-'' # dec_nat (nat (- i)) else dec_nat (nat i))"

definition swim_join :: "env \<Rightarrow> swim_context \<Rightarrow> string \<Rightarrow> 16 word \<Rightarrow> mem_error + (bool \<times> swim_context)" where
  "swim_join e ctx addr p =
     (let seed_id = take (SWIM_NODE_ID_SIZE - 1) (''seed-'' @ addr @ '':'' @ dec_nat (unat p)) in
      case swim_create_node e seed_id addr p of
        None \<Rightarrow> Inr (False, ctx)
      | Some seed \<Rightarrow>
          ebind (swim_add_node e ctx seed) (\<lambda>ctx1.
            case swim_find_node ctx1 seed_id of
              None \<Rightarrow> Inr (True, ctx1)
            | Some k \<Rightarrow>
                ebind (swim_send_sync e (swim_send_ping e ctx1 k) k) (\<lambda>ctx2. Inr (True, ctx2))))"

section \<open>node\_coordinator.h and node\_coordinator.c\<close>

datatype coordinator_state_t = COORD_STATE_FOLLOWER | COORD_STATE_CANDIDATE | COORD_STATE_LEADER

datatype task_type_t =
  TASK_TYPE_AI_REQUEST | TASK_TYPE_MEMORY_SYNC | TASK_TYPE_BROADCAST | TASK_TYPE_HEALTH_CHECK

record task =
  task_id :: string
  task_type :: task_type_t
  assigned_node :: string
  payload :: "8 word list option"
  payload_len :: nat
  created_at :: int
  deadline :: int
  retries :: int

text \<open>
  \<open>node_coordinator_t\<close>. The \<open>swim\<close> pointer is not a field: the functions below take the
  context the coordinator points to and return it with the coordinator. \<open>votes_received\<close>
  is a C \<open>int\<close>, kept as its 32 bits. The callback pointers are flags; invocations of
  \<open>on_become_leader\<close> are counted and those of \<open>on_task_complete\<close> are listed with their
  arguments. \<open>avg_task_latency_ms\<close> is never written and is left out.
\<close>

record node_coordinator =
  coord_state :: coordinator_state_t
  coord_is_main_node :: bool
  leader_id :: string
  leader_last_seen :: int
  coord_term :: "32 word"
  election_timeout :: int
  votes_received :: "32 word"
  pending_tasks :: "task list"
  completed_tasks :: "task list"
  pending_count :: "32 word"
  completed_count :: "32 word"
  tasks_processed :: "64 word"
  tasks_failed :: "64 word"
  on_become_leader :: bool
  on_lose_leadership :: bool
  on_task_complete :: bool
  become_leader_calls :: nat
  task_complete_calls :: "(string \<times> bool) list"

definition random_election_timeout :: "env \<Rightarrow> int" where
  "random_election_timeout e = 150 + int (rand_val e mod 150)"

definition coordinator_init ::
  "env \<Rightarrow> swim_context \<Rightarrow> bool \<Rightarrow> (node_coordinator \<times> swim_context) option" where
  "coordinator_init e swim start_as_main =
     (if \<not> alloc_ok e then None
      else
        (let coord = \<lparr> coord_state = (if start_as_main then COORD_STATE_LEADER
                                       else COORD_STATE_FOLLOWER),
                       coord_is_main_node = start_as_main,
                       leader_id = [],
                       leader_last_seen = 0,
                       coord_term = 1,
                       election_timeout = clock_ms e + random_election_timeout e,
                       votes_received = 0,
                       pending_tasks = [],
                       completed_tasks = [],
                       pending_count = 0,
                       completed_count = 0,
                       tasks_processed = 0,
                       tasks_failed = 0,
                       on_become_leader = False,
                       on_lose_leadership = False,
                       on_task_complete = False,
                       become_leader_calls = 0,
                       task_complete_calls = [] \<rparr>;
             (coord1, swim1) =
               (if start_as_main
                then (case swim_get_local_node swim of
                        None \<Rightarrow> (coord, swim)
                      | Some k \<Rightarrow> (coord\<lparr>leader_id := strncpy0 64 (node_id (nodes swim ! k))\<rparr>,
                                   swim_set_main_node swim True))
                else (coord, swim))
         in Some (coord1, swim1\<lparr>on_node_event := True\<rparr>)))"

text \<open>The promotion to leader that \<open>coordinator_process\<close> and
  \<open>coordinator_start_election\<close> both perform.\<close>

definition become_leader :: "node_coordinator \<times> swim_context \<Rightarrow> node_coordinator \<times> swim_context" where
  "become_leader cs =
     (let coord = (fst cs)\<lparr>coord_state := COORD_STATE_LEADER\<rparr>; swim = snd cs;
          (coord1, swim1) =
            (case swim_get_local_node swim of
               None \<Rightarrow> (coord, swim)
             | Some k \<Rightarrow> (coord\<lparr>leader_id := strncpy0 64 (node_id (nodes swim ! k))\<rparr>,
                          swim_set_main_node swim True));
          coord2 = coord1\<lparr>coord_is_main_node := True\<rparr>
      in (if on_become_leader coord2
          then coord2\<lparr>become_leader_calls := become_leader_calls coord2 + 1\<rparr> else coord2,
          swim1))"

definition coordinator_start_election ::
  "env \<Rightarrow> node_coordinator \<times> swim_context \<Rightarrow> node_coordinator \<times> swim_context" where
  "coordinator_start_election e cs =
     (let coord = (fst cs)\<lparr>coord_state := COORD_STATE_CANDIDATE,
                           coord_term := coord_term (fst cs) + 1,
                           votes_received := 1,
                           election_timeout := clock_ms e + random_election_timeout e\<rparr>;
          alive = swim_get_node_count (snd cs) NODE_STATE_ALIVE
      in if alive \<le> 1 then become_leader (coord, snd cs) else (coord, snd cs))"

text \<open>The \<open>while (task)\<close> loop of the leader case, over the pending list from its head.\<close>

fun drain_tasks :: "task list \<Rightarrow> node_coordinator \<Rightarrow> node_coordinator" where
  "drain_tasks [] coord = coord"
| "drain_tasks (t # next) coord =
     drain_tasks next
       (let c = coord\<lparr>tasks_processed := tasks_processed coord + 1,
                      completed_tasks := t # completed_tasks coord,
                      completed_count := completed_count coord + 1,
                      pending_count := pending_count coord - 1\<rparr>
        in if on_task_complete c
           then c\<lparr>task_complete_calls := task_complete_calls c @ [(task_id t, True)]\<rparr>
           else c)"

text \<open>
  In the candidate case \<open>coord->votes_received > alive / 2\<close> compares an \<open>int\<close> with a
  \<open>uint32_t\<close>, so C converts the \<open>int\<close> to unsigned and compares the 32-bit patterns.
\<close>

definition coordinator_process ::
  "env \<Rightarrow> node_coordinator \<times> swim_context \<Rightarrow> node_coordinator \<times> swim_context" where
  "coordinator_process e cs =
     (let coord = fst cs; swim = snd cs; now = clock_ms e in
      case coord_state coord of
        COORD_STATE_FOLLOWER \<Rightarrow>
          if election_timeout coord < now then coordinator_start_election e cs else cs
      | COORD_STATE_CANDIDATE \<Rightarrow>
          (let alive = swim_get_node_count swim NODE_STATE_ALIVE in
           if alive div 2 < votes_received coord then become_leader cs else cs)
      | COORD_STATE_LEADER \<Rightarrow>
          ((drain_tasks (pending_tasks coord) coord)\<lparr>pending_tasks := []\<rparr>, swim))"

definition coordinator_submit_task ::
  "env \<Rightarrow> node_coordinator \<Rightarrow> task_type_t \<Rightarrow> 8 word list option \<Rightarrow> nat \<Rightarrow> bool \<times> node_coordinator" where
  "coordinator_submit_task e coord ty pl len =
     (if \<not> alloc_ok e then (False, coord)
      else
        (let has_payload = (pl \<noteq> None \<and> 0 < len);
             t = \<lparr> task_id = take 63 (''task-'' @ dec_int (time_now e) @ ''-''
                                        @ dec_nat (rand_val e mod 10000)),
                   task_type = ty,
                   assigned_node = [],
                   payload = (if has_payload then map_option (take len) pl else None),
                   payload_len = (if has_payload then len else 0),
                   created_at = clock_ms e,
                   deadline = clock_ms e + 30000,
                   retries = 0 \<rparr>
         in (True, coord\<lparr>pending_tasks := t # pending_tasks coord,
                          pending_count := pending_count coord + 1\<rparr>)))"

definition coordinator_is_leader :: "node_coordinator \<Rightarrow> bool" where
  "coordinator_is_leader coord \<longleftrightarrow> coord_state coord = COORD_STATE_LEADER"

definition coordinator_pending_count :: "node_coordinator \<Rightarrow> 32 word" where
  "coordinator_pending_count coord = pending_count coord"

definition coordinator_set_callbacks ::
  "node_coordinator \<Rightarrow> bool \<Rightarrow> bool \<Rightarrow> bool \<Rightarrow> node_coordinator" where
  "coordinator_set_callbacks coord bl ll tc =
     coord\<lparr>on_become_leader := bl, on_lose_leadership := ll, on_task_complete := tc\<rparr>"

text \<open>The coordinator's handler for the membership callback \<open>on_node_event\<close>.\<close>

definition coord_on_node_event ::
  "env \<Rightarrow> node_coordinator \<times> swim_context \<Rightarrow> node_event \<Rightarrow> node_coordinator \<times> swim_context" where
  "coord_on_node_event e cs ev =
     (case ev of (nid, old_state, new_state) \<Rightarrow>
        if nid = leader_id (fst cs) \<and> new_state \<noteq> NODE_STATE_ALIVE
        then coordinator_start_election e cs else cs)"

section \<open>node\_manager.h and node\_manager.c\<close>

definition MAX_NODES_PER_SERVER :: "32 word" where "MAX_NODES_PER_SERVER = 16"

record node_instance_config =
  cfg_node_id :: string
  cfg_swim_port :: "16 word"
  cfg_ws_port :: "16 word"
  cfg_is_main_node :: bool
  cfg_auto_start :: bool
  cfg_seed_address :: string
  cfg_seed_port :: "16 word"

record node_instance =
  inst_id :: string
  swim_port :: "16 word"
  ws_port :: "16 word"
  inst_is_running :: bool
  inst_is_main_node :: bool
  swim :: swim_context
  coordinator :: node_coordinator
  messages_processed :: "64 word"
  uptime_seconds :: "64 word"
  start_time :: int

text \<open>
  \<open>node_manager_t\<close>; \<open>mesh_url\<close> and the error and stop callbacks are not used by the
  functions below. \<open>on_node_started\<close> is a flag and its invocations are listed by
  instance id.
\<close>

record node_manager =
  instances :: "node_instance list"
  instance_count :: "32 word"
  max_instances :: "32 word"
  port_range_start :: "16 word"
  port_range_end :: "16 word"
  next_available_port :: "16 word"
  server_id :: string
  on_node_started :: bool
  node_started_calls :: "string list"

definition generate_node_id :: "env \<Rightarrow> nat \<Rightarrow> string \<Rightarrow> 32 word \<Rightarrow> string" where
  "generate_node_id e sz sid index =
     take (sz - 1) (sid @ ''-node-'' @ dec_int (sint index) @ ''-'' @ dec_int (time_now e))"

text \<open>
  \<open>node_manager_init\<close>. The default of the upper bound is computed from the argument
  \<open>port_start\<close>, as the source writes it, in \<open>uint16_t\<close>.
\<close>

definition node_manager_init :: "env \<Rightarrow> string \<Rightarrow> 16 word \<Rightarrow> 16 word \<Rightarrow> node_manager option" where
  "node_manager_init e sid port_start port_end =
     (if \<not> alloc_ok e then None
      else Some \<lparr> instances = [],
                  instance_count = 0,
                  max_instances = MAX_NODES_PER_SERVER,
                  port_range_start = (if port_start \<noteq> 0 then port_start else 7946),
                  port_range_end = (if port_end \<noteq> 0 then port_end else port_start + 100),
                  next_available_port = (if port_start \<noteq> 0 then port_start else 7946),
                  server_id = strncpy0 64 sid,
                  on_node_started = False,
                  node_started_calls = [] \<rparr>)"

text \<open>The inner \<open>while (node)\<close> loop of \<open>node_manager_allocate_port\<close>.\<close>

fun port_in_use :: "node_instance list \<Rightarrow> 16 word \<Rightarrow> bool" where
  "port_in_use [] port = False"
| "port_in_use (node # next) port =
     (if swim_port node = port \<or> ws_port node = port then True else port_in_use next port)"

text \<open>
  The outer loop \<open>for (p = port_range_start; p < port_range_end; p++)\<close>: \<open>p\<close> only
  counts the iterations, \<open>port\<close> is the candidate. The result is \<open>(port, found)\<close>.
\<close>

function alloc_scan :: "node_manager \<Rightarrow> 16 word \<Rightarrow> 16 word \<Rightarrow> 16 word \<times> bool" where
  "alloc_scan mgr p port =
     (if p < port_range_end mgr
      then (if \<not> port_in_use (instances mgr) port then (port, True)
            else alloc_scan mgr (p + 1)
                   (if port_range_end mgr \<le> port + 1 then port_range_start mgr else port + 1))
      else (port, False))"
  by pat_completeness auto
termination
  by (relation "measure (\<lambda>(mgr, p, port). unat (port_range_end mgr) - unat p)")
     (auto simp: unat_inc_less word_less_nat_alt)

declare alloc_scan.simps [simp del]

definition node_manager_allocate_port :: "node_manager \<Rightarrow> 16 word \<times> node_manager" where
  "node_manager_allocate_port mgr =
     (case alloc_scan mgr (port_range_start mgr) (next_available_port mgr) of
        (port, found) \<Rightarrow>
          if found
          then (port, mgr\<lparr>next_available_port :=
                            (if port_range_end mgr \<le> port + 1 then port_range_start mgr
                             else port + 1)\<rparr>)
          else (0, mgr))"

definition node_manager_get_node :: "node_manager \<Rightarrow> string \<Rightarrow> nat option" where
  "node_manager_get_node mgr nid = find_first (\<lambda>n. inst_id n = nid) (instances mgr)"

definition node_manager_start_node :: "env \<Rightarrow> node_manager \<Rightarrow> string \<Rightarrow> bool \<times> node_manager" where
  "node_manager_start_node e mgr nid =
     (case node_manager_get_node mgr nid of
        None \<Rightarrow> (False, mgr)
      | Some k \<Rightarrow>
          (let node = instances mgr ! k in
           if inst_is_running node then (True, mgr)
           else
             (case swim_start e (swim node) of
                (ok, sw) \<Rightarrow>
                  if \<not> ok then (False, mgr\<lparr>instances := (instances mgr)[k := node\<lparr>swim := sw\<rparr>]\<rparr>)
                  else
                    (let node1 = node\<lparr>swim := sw, inst_is_running := True,
                                       start_time := time_now e\<rparr>;
                         mgr1 = mgr\<lparr>instances := (instances mgr)[k := node1]\<rparr>
                     in (True, if on_node_started mgr1
                               then mgr1\<lparr>node_started_calls := node_started_calls mgr1 @ [inst_id node1]\<rparr>
                               else mgr1)))))"

text \<open>
  \<open>node_manager_create_node\<close>. The result is the position of the new instance in the
  list (it is put at the head), or \<open>None\<close> for the \<open>NULL\<close> returns, with the manager as
  the call leaves it.
\<close>

definition node_manager_create_node ::
  "env \<Rightarrow> node_manager \<Rightarrow> node_instance_config \<Rightarrow> mem_error + (nat option \<times> node_manager)" where
  "node_manager_create_node e mgr config =
     (if max_instances mgr \<le> instance_count mgr then Inr (None, mgr)
      else
        (case (if cfg_swim_port config = 0 then node_manager_allocate_port mgr
               else (cfg_swim_port config, mgr)) of
           (sp, mgr1) \<Rightarrow>
             if sp = 0 then Inr (None, mgr1)
             else
               (case (if cfg_ws_port config = 0 then node_manager_allocate_port mgr1
                      else (cfg_ws_port config, mgr1)) of
                  (wp, mgr2) \<Rightarrow>
                    if \<not> alloc_ok e then Inr (None, mgr2)
                    else
                      (let nid = (if cfg_node_id config \<noteq> [] then strncpy0 64 (cfg_node_id config)
                                  else generate_node_id e 64 (server_id mgr2) (instance_count mgr2)) in
                       case swim_init e nid sp SWIM_DEFAULT_INTERVAL of
                         None \<Rightarrow> Inr (None, mgr2)
                       | Some sw \<Rightarrow>
                           (case coordinator_init e sw (cfg_is_main_node config) of
                              None \<Rightarrow> Inr (None, mgr2)
                            | Some (coord, sw1) \<Rightarrow>
                                (let node = \<lparr> inst_id = nid, swim_port = sp, ws_port = wp,
                                              inst_is_running = False,
                                              inst_is_main_node = cfg_is_main_node config,
                                              swim = sw1, coordinator = coord,
                                              messages_processed = 0, uptime_seconds = 0,
                                              start_time = 0 \<rparr>;
                                     mgr3 = mgr2\<lparr>instances := node # instances mgr2,
                                                 instance_count := instance_count mgr2 + 1\<rparr>
                                 in if cfg_auto_start config
                                    then
                                      (let mgr4 = snd (node_manager_start_node e mgr3 nid) in
                                       if cfg_seed_address config \<noteq> [] \<and> 0 < cfg_seed_port config
                                       then ebind (swim_join e (swim (instances mgr4 ! 0))
                                                     (cfg_seed_address config) (cfg_seed_port config))
                                              (\<lambda>(ok, sw2). Inr (Some 0,
                                                 mgr4\<lparr>instances := (instances mgr4)
                                                        [0 := (instances mgr4 ! 0)\<lparr>swim := sw2\<rparr>]\<rparr>))
                                       else Inr (Some 0, mgr4))
                                    else Inr (Some 0, mgr3)))))))"

definition node_manager_total_count :: "node_manager \<Rightarrow> 32 word" where
  "node_manager_total_count mgr = instance_count mgr"

section \<open>The merge rule of the spec\<close>

text \<open>What an engine holds about a node id: state, incarnation and main flag of the
  record that \<open>swim_find_node\<close> returns.\<close>

definition local_copy :: "swim_context \<Rightarrow> string \<Rightarrow> (swim_node_state_t \<times> 32 word \<times> bool) option" where
  "local_copy ctx i =
     map_option (\<lambda>k. (node_state (nodes ctx ! k), node_incarnation (nodes ctx ! k),
                        node_is_main_node (nodes ctx ! k)))
       (swim_find_node ctx i)"



section \<open>Observations of a Sync datagram\<close>

text \<open>
  A \<open>NodeId\<close> as the engine stores it: a C string that fits the 64-byte id buffers with
  its terminator. \<open>ids_ok\<close> says that the local id and the ids of all nodes of a context
  are such strings, and \<open>states_ok\<close> that every node of a context is in one of the four
  states of \<open>swim_node_state_t\<close>.
\<close>

definition node_id_ok :: "string \<Rightarrow> bool" where
  "node_id_ok s \<longleftrightarrow> cstring s \<and> length s < SWIM_NODE_ID_SIZE"

definition ids_ok :: "swim_context \<Rightarrow> bool" where
  "ids_ok ctx \<longleftrightarrow> node_id_ok (local_id ctx) \<and> (\<forall>n\<in>set (nodes ctx). node_id_ok (node_id n))"

definition states_ok :: "swim_context \<Rightarrow> bool" where
  "states_ok ctx \<longleftrightarrow> (\<forall>n\<in>set (nodes ctx). node_state n < 4)"

text \<open>
  The record that a datagram carries at an offset: defined when all 140 bytes of the
  record are in the datagram and both of its strings are terminated inside their 64-byte
  fields. \<open>sync_node_count\<close> is the \<open>node_count\<close> field of a Sync datagram and \<open>records_of\<close>
  the records at the offsets that the loop of the handler visits for a count \<open>n\<close>.
\<close>

definition record_at :: "string \<Rightarrow> nat \<Rightarrow> swim_node_update option" where
  "record_at data off =
     (if off + SIZEOF_UPDATE \<le> length data
         \<and> CHR 0x00 \<in> set (take 64 (drop off data))
         \<and> CHR 0x00 \<in> set (take 64 (drop (off + 64) data))
      then Some \<lparr> upd_id = takeWhile (\<lambda>c. c \<noteq> CHR 0x00) (take 64 (drop off data)),
                  upd_address = takeWhile (\<lambda>c. c \<noteq> CHR 0x00) (take 64 (drop (off + 64) data)),
                  upd_port = le_word (take 2 (drop (off + 128) data)),
                  upd_state = le_word (take 1 (drop (off + 130) data)),
                  upd_incarnation = le_word (take 4 (drop (off + 132) data)),
                  upd_is_main_node = le_word (take 1 (drop (off + 136) data)) \<rparr>
      else None)"



section \<open>Observations of the manager\<close>

text \<open>The membership and application ports held by the owned instances, in list order.\<close>

definition ports_of :: "node_manager \<Rightarrow> (16 word \<times> 16 word) list" where
  "ports_of mgr = map (\<lambda>n. (swim_port n, ws_port n)) (instances mgr)"

text \<open>The cursor stays inside a non-empty range; an empty range is never entered.\<close>

definition port_cursor_ok :: "node_manager \<Rightarrow> bool" where
  "port_cursor_ok m \<longleftrightarrow>
     port_range_end m \<le> port_range_start m
     \<or> (port_range_start m \<le> next_available_port m \<and> next_available_port m < port_range_end m)"

section \<open>Several engines in one process\<close>

text \<open>
  The Instance Manager hosts several Membership Engines in one process, and every engine's
  worker calls \<open>swim_gossip_round\<close>. The state of the process is the one \<open>sync_counter\<close>
  of that function and the engines; \<open>process_round\<close> is a round of engine \<open>k\<close>, and
  \<open>process_rounds\<close> runs the rounds of a schedule one after the other.
\<close>

definition msg_type :: "swim_message \<Rightarrow> 8 word" where
  "msg_type m = (case m of Ping h _ \<Rightarrow> hdr_type h | PingReq h _ _ \<Rightarrow> hdr_type h
                 | Ack h _ \<Rightarrow> hdr_type h | Sync h _ _ \<Rightarrow> hdr_type h)"

definition sent_types :: "swim_context \<Rightarrow> 8 word list" where
  "sent_types ctx = map (\<lambda>d. msg_type (snd (snd d))) (outbox ctx)"

definition process_round ::
  "env \<Rightarrow> nat \<Rightarrow> int \<times> swim_context list \<Rightarrow> mem_error + (int \<times> swim_context list)" where
  "process_round e k st =
     ebind (swim_gossip_round e (fst st) (snd st ! k))
       (\<lambda>r. Inr (fst r, (snd st)[k := snd r]))"

fun process_rounds ::
  "env \<Rightarrow> nat list \<Rightarrow> int \<times> swim_context list \<Rightarrow> mem_error + (int \<times> swim_context list)" where
  "process_rounds e [] st = Inr st"
| "process_rounds e (k # ks) st = ebind (process_round e k st) (process_rounds e ks)"

section \<open>Sample inputs\<close>

text \<open>An environment in which every system call succeeds.\<close>

definition env_ok :: env where
  "env_ok = \<lparr> time_now = 1700000000, clock_ms = 1000, rand_val = 0, alloc_ok = True,
              bind_ok = True, sendto_ok = True, thread_ok = True, host_name = ''host'' \<rparr>"

text \<open>A leader with three submitted tasks and its completion callback registered.\<close>

definition leader0 :: "node_coordinator \<times> swim_context" where
  "leader0 = the (coordinator_init env_ok (the (swim_init env_ok ''n1'' 7946 1000)) True)"

definition leader3 :: node_coordinator where
  "leader3 =
     (let c0 = coordinator_set_callbacks (fst leader0) True True True;
          c1 = snd (coordinator_submit_task env_ok c0 TASK_TYPE_AI_REQUEST None 0);
          c2 = snd (coordinator_submit_task env_ok c1 TASK_TYPE_BROADCAST (Some [1, 2, 3]) 3)
      in snd (coordinator_submit_task env_ok c2 TASK_TYPE_HEALTH_CHECK None 0))"

text \<open>An engine \<open>a\<close> that knows one peer \<open>b\<close>; a follower without peers; a candidate
  whose engine sees two nodes alive.\<close>

definition peer_ctx :: swim_context where
  "peer_ctx = projr (swim_add_node env_ok (the (swim_init env_ok ''a'' 7946 1000))
                       (the (swim_create_node env_ok ''b'' ''127.0.0.1'' 7947)))"

definition follower0 :: "node_coordinator \<times> swim_context" where
  "follower0 = the (coordinator_init env_ok (the (swim_init env_ok ''a'' 7946 1000)) False)"

definition candidate0 :: "node_coordinator \<times> swim_context" where
  "candidate0 = coordinator_start_election env_ok
                  (fst (the (coordinator_init env_ok peer_ctx False)),
                   snd (the (coordinator_init env_ok peer_ctx False)))"

text \<open>Unfolding sets for evaluating the model on concrete inputs.\<close>

lemmas eval_defs =
  env_ok_def Let_def strncpy0_def dec_int_def dec_nat.simps digit_char_def
  SWIM_NODE_ID_SIZE_def SWIM_DEFAULT_PORT_def SWIM_DEFAULT_INTERVAL_def
  SWIM_PROBE_TIMEOUT_def SWIM_SUSPECT_TIMEOUT_def node_state_defs msg_type_defs
  swim_init_def swim_create_node_def swim_add_node_def fire_node_event_def
  swim_get_local_node_def swim_find_node_def swim_set_main_node_def
  swim_update_node_state_def word_le_nat_alt word_less_nat_alt

lemmas coord_eval_defs =
  coordinator_init_def coordinator_set_callbacks_def coordinator_submit_task_def
  random_election_timeout_def




definition peer_b :: swim_context where
  "peer_b = projr (swim_add_node env_ok (the (swim_init env_ok ''b'' 7947 1000))
                     (the (swim_create_node env_ok ''a'' ''127.0.0.1'' 7946)))"

text \<open>A configuration with auto-allocated ports; a manager with the port range
  \<open>[7946, 7948)\<close>, the same after one creation, and a manager created with both bounds 0.\<close>

definition cfg_auto :: node_instance_config where
  "cfg_auto = \<lparr> cfg_node_id = [], cfg_swim_port = 0, cfg_ws_port = 0,
                 cfg_is_main_node = False, cfg_auto_start = False,
                 cfg_seed_address = [], cfg_seed_port = 0 \<rparr>"

definition mgr_small :: node_manager where
  "mgr_small = the (node_manager_init env_ok ''srv'' 7946 7948)"

definition mgr_small1 :: node_manager where
  "mgr_small1 = snd (projr (node_manager_create_node env_ok mgr_small cfg_auto))"

definition mgr_default :: node_manager where
  "mgr_default = the (node_manager_init env_ok ''srv'' 0 0)"

text \<open>
  Datagrams as bytes. \<open>sync_header_bytes\<close> is a bare header (76 bytes) of type Sync from
  sender \<open>b\<close>: version 1, type 3, payload\_len 140, seq 1, sender id, incarnation 1.
  \<open>record_state4_bytes\<close> is one update record (140 bytes) for node \<open>c\<close> at 10.0.0.9:7950
  with state byte 4, incarnation 1, main flag 0. \<open>sync_state4\<close> is the header, node\_count 1
  and that record; \<open>sync_count2\<close> declares two records and carries one.
\<close>

definition sync_header_bytes :: string where
  "sync_header_bytes =
     [CHR 0x01, CHR 0x03, CHR 0x8C, CHR 0x00] @ [CHR 0x01, CHR 0x00, CHR 0x00, CHR 0x00]
     @ ''b'' @ replicate 63 (CHR 0x00) @ [CHR 0x01, CHR 0x00, CHR 0x00, CHR 0x00]"

definition record_state4_bytes :: string where
  "record_state4_bytes =
     ''c'' @ replicate 63 (CHR 0x00) @ ''10.0.0.9'' @ replicate 56 (CHR 0x00)
     @ [CHR 0x0E, CHR 0x1F] @ [CHR 0x04] @ [CHR 0x00] @ [CHR 0x01, CHR 0x00, CHR 0x00, CHR 0x00]
     @ [CHR 0x00] @ [CHR 0x00, CHR 0x00, CHR 0x00]"

definition sync_state4 :: string where
  "sync_state4 = sync_header_bytes @ [CHR 0x01, CHR 0x00, CHR 0x00, CHR 0x00] @ record_state4_bytes"

definition sync_count2 :: string where
  "sync_count2 = sync_header_bytes @ [CHR 0x02, CHR 0x00, CHR 0x00, CHR 0x00] @ record_state4_bytes"

definition after_state4 :: swim_context where
  "after_state4 = projr (swim_handle_message env_ok peer_ctx (''10.0.0.2'', 7947) sync_state4)"

text \<open>
  \<open>record_c_bytes\<close> is an update record (140 bytes) for node \<open>c\<close> at 10.0.0.9:7950 with
  the given state byte, incarnation (below 256) and main flag. \<open>sync_c10\<close> is a Sync
  datagram from sender \<open>b\<close> with the one record \<open>upd_c10\<close>, and \<open>sync_c5_c3\<close> one with
  the two records \<open>upd_c5\<close> and \<open>upd_c3\<close> (payload\_len 280). \<open>ctx_c10\<close> is the engine \<open>a\<close>
  after it has handled \<open>sync_c10\<close>.
\<close>

definition record_c_bytes :: "char \<Rightarrow> char \<Rightarrow> char \<Rightarrow> string" where
  "record_c_bytes st inc im =
     ''c'' @ replicate 63 (CHR 0x00) @ ''10.0.0.9'' @ replicate 56 (CHR 0x00)
     @ [CHR 0x0E, CHR 0x1F] @ [st] @ [CHR 0x00] @ [inc, CHR 0x00, CHR 0x00, CHR 0x00]
     @ [im] @ [CHR 0x00, CHR 0x00, CHR 0x00]"

definition sync_c10 :: string where
  "sync_c10 = sync_header_bytes @ [CHR 0x01, CHR 0x00, CHR 0x00, CHR 0x00]
              @ record_c_bytes (CHR 0x00) (CHR 0x0A) (CHR 0x00)"


definition ctx_c10 :: swim_context where
  "ctx_c10 = projr (swim_handle_message env_ok peer_ctx (''10.0.0.2'', 7947) sync_c10)"

text \<open>
  \<open>sync_c11_state4\<close> is a Sync datagram from \<open>b\<close> with one record for \<open>c\<close> at incarnation 11
  whose state byte is 4. \<open>id63\<close> is an id of 63 bytes; \<open>record_long_bytes\<close> is a record
  whose id field holds \<open>id63\<close> followed by the given 64th byte, with the given state byte
  and incarnation. \<open>sync_long10\<close> carries \<open>id63\<close> with its terminator, Alive at incarnation
  10; \<open>sync_long64\<close> carries an id field without terminator (64 bytes \<open>c\<close>), Dead at
  incarnation 3. \<open>ctx_long10\<close> is the engine \<open>a\<close> after it has handled \<open>sync_long10\<close>.
\<close>

definition sync_c11_state4 :: string where
  "sync_c11_state4 = sync_header_bytes @ [CHR 0x01, CHR 0x00, CHR 0x00, CHR 0x00]
                     @ record_c_bytes (CHR 0x04) (CHR 0x0B) (CHR 0x00)"

definition id63 :: string where
  "id63 = replicate 63 (CHR ''c'')"

definition record_long_bytes :: "char \<Rightarrow> char \<Rightarrow> char \<Rightarrow> string" where
  "record_long_bytes b64 st inc =
     id63 @ [b64] @ ''10.0.0.9'' @ replicate 56 (CHR 0x00)
     @ [CHR 0x0E, CHR 0x1F] @ [st] @ [CHR 0x00] @ [inc, CHR 0x00, CHR 0x00, CHR 0x00]
     @ [CHR 0x00] @ [CHR 0x00, CHR 0x00, CHR 0x00]"

definition sync_long10 :: string where
  "sync_long10 = sync_header_bytes @ [CHR 0x01, CHR 0x00, CHR 0x00, CHR 0x00]
                 @ record_long_bytes (CHR 0x00) (CHR 0x00) (CHR 0x0A)"

definition sync_long64 :: string where
  "sync_long64 = sync_header_bytes @ [CHR 0x01, CHR 0x00, CHR 0x00, CHR 0x00]
                 @ record_long_bytes (CHR ''c'') (CHR 0x02) (CHR 0x03)"

definition ctx_long10 :: swim_context where
  "ctx_long10 = projr (swim_handle_message env_ok peer_ctx (''10.0.0.2'', 7947) sync_long10)"


lemmas wire_eval = sync_header_bytes_def record_state4_bytes_def sync_state4_def sync_count2_def
  decode_header_def rd_word_def rd_def ebind_def le_word_def strcmp_wire_def strncpy_wire_def
  find_or_create_sender_def sync_record_def SIZEOF_HEADER_def SIZEOF_SYNC_def SIZEOF_UPDATE_def

lemmas gossip_eval = process_round_def swim_gossip_round_def swim_check_timeouts_def
  check_timeout_node_def swim_select_random_node_def probe_eligible_def swim_send_ping_def
  swim_send_sync_def send_header_def sendto_def node_update_of_def ebind_def
  SYNC_BUFFER_SIZE_def SIZEOF_SYNC_def SIZEOF_UPDATE_def sent_types_def msg_type_def

section \<open>Facts about the node list\<close>

lemma find_first_Some:
  "find_first P xs = Some k \<Longrightarrow> k < length xs \<and> P (xs ! k) \<and> (\<forall>j<k. \<not> P (xs ! j))"
proof (induction xs arbitrary: k)
  case Nil
  then show ?case by simp
next
  case (Cons x xs)
  show ?case
  proof (cases "P x")
    case True
    with Cons.prems show ?thesis by simp
  next
    case False
    with Cons.prems obtain k' where k': "find_first P xs = Some k'" "k = Suc k'"
      by auto
    from Cons.IH [OF k'(1)] False k'(2) show ?thesis
      by (auto simp: less_Suc_eq_0_disj)
  qed
qed

lemma find_first_None: "find_first P xs = None \<longleftrightarrow> (\<forall>x\<in>set xs. \<not> P x)"
  by (induction xs) auto

lemma find_first_update_same:
  assumes "find_first P xs = Some k" and "P y"
  shows "find_first P (xs[k := y]) = Some k"
  using assms
proof (induction xs arbitrary: k)
  case Nil
  then show ?case by simp
next
  case (Cons x xs)
  then show ?case by (cases k) (auto split: if_splits)
qed



lemma set_main_node_local:
  assumes "swim_get_local_node ctx = Some k"
  shows "swim_set_main_node ctx b =
           ctx\<lparr>ctx_is_main_node := b,
               nodes := (nodes ctx)[k := (nodes ctx ! k)\<lparr>node_is_main_node := b\<rparr>],
               ctx_incarnation := ctx_incarnation ctx + 1\<rparr>"
  using assms by (simp add: swim_set_main_node_def swim_get_local_node_def)

lemma set_main_node_keeps_local:
  assumes "swim_get_local_node ctx = Some k"
  shows "swim_get_local_node (swim_set_main_node ctx b) = Some k"
proof -
  from assms have f: "find_first node_is_local (nodes ctx) = Some k"
    by (simp add: swim_get_local_node_def)
  then have "node_is_local (nodes ctx ! k)"
    by (simp add: find_first_Some)
  then have "find_first node_is_local ((nodes ctx)[k := (nodes ctx ! k)\<lparr>node_is_main_node := b\<rparr>]) = Some k"
    using f by (simp add: find_first_update_same)
  then show ?thesis
    by (simp add: set_main_node_local [OF assms] swim_get_local_node_def)
qed

text \<open>What \<open>swim_init\<close> establishes: the local node is found, at incarnation 1.\<close>

lemma swim_init_local:
  assumes "swim_init e lid p iv = Some ctx"
  shows "swim_get_local_node ctx = Some 0"
    and "node_incarnation (nodes ctx ! 0) = 1"
    and "ctx_incarnation ctx = 1"
    and "swim_get_node_count ctx NODE_STATE_ALIVE = 1"
  using assms
  by (auto simp: swim_init_def Let_def swim_create_node_def swim_add_node_def
      fire_node_event_def swim_get_local_node_def swim_get_node_count_def split: if_splits)

section \<open>The main-node flag\<close>

text \<open>
  C8. Calling \<open>set_main(true)\<close> and then \<open>set_main(false)\<close> on a Membership Engine that
  has its local node leaves the main flag false, in the context and in the local node's
  record, and raises the engine's own incarnation \<open>ctx->incarnation\<close> by exactly 2 (in
  \<open>uint32_t\<close> arithmetic) relative to its value before the two calls. The local node is
  still found at the same place, and the \<open>incarnation\<close> field of its record keeps its
  value.
\<close>

theorem set_main_true_then_false:
  assumes "swim_get_local_node ctx = Some k"
  shows "let ctx' = swim_set_main_node (swim_set_main_node ctx True) False in
           swim_get_local_node ctx' = Some k
         \<and> \<not> ctx_is_main_node ctx'
         \<and> \<not> node_is_main_node (nodes ctx' ! k)
         \<and> ctx_incarnation ctx' = ctx_incarnation ctx + 2
         \<and> node_incarnation (nodes ctx' ! k) = node_incarnation (nodes ctx ! k)"
proof -
  let ?c1 = "swim_set_main_node ctx True"
  have l1: "swim_get_local_node ?c1 = Some k"
    by (rule set_main_node_keeps_local [OF assms])
  have l2: "swim_get_local_node (swim_set_main_node ?c1 False) = Some k"
    by (rule set_main_node_keeps_local [OF l1])
  from assms have k: "k < length (nodes ctx)"
    by (simp add: swim_get_local_node_def find_first_Some)
  have e1: "?c1 = ctx\<lparr>ctx_is_main_node := True,
               nodes := (nodes ctx)[k := (nodes ctx ! k)\<lparr>node_is_main_node := True\<rparr>],
               ctx_incarnation := ctx_incarnation ctx + 1\<rparr>"
    by (rule set_main_node_local [OF assms])
  have e2: "swim_set_main_node ?c1 False = ?c1\<lparr>ctx_is_main_node := False,
               nodes := (nodes ?c1)[k := (nodes ?c1 ! k)\<lparr>node_is_main_node := False\<rparr>],
               ctx_incarnation := ctx_incarnation ?c1 + 1\<rparr>"
    by (rule set_main_node_local [OF l1])
  have n1: "nodes ?c1 = (nodes ctx)[k := (nodes ctx ! k)\<lparr>node_is_main_node := True\<rparr>]"
    and i1: "ctx_incarnation ?c1 = ctx_incarnation ctx + 1"
    by (simp_all add: e1)
  have "swim_get_local_node (swim_set_main_node ?c1 False) = Some k"
    by (rule l2)
  moreover have "\<not> ctx_is_main_node (swim_set_main_node ?c1 False)"
    by (subst e2) simp
  moreover have "\<not> node_is_main_node (nodes (swim_set_main_node ?c1 False) ! k)"
    by (subst e2) (simp add: n1 k)
  moreover have "ctx_incarnation (swim_set_main_node ?c1 False) = ctx_incarnation ctx + 2"
    by (subst e2) (simp add: i1)
  moreover have "node_incarnation (nodes (swim_set_main_node ?c1 False) ! k)
      = node_incarnation (nodes ctx ! k)"
    by (subst e2) (simp add: n1 k)
  ultimately show ?thesis
    unfolding Let_def by blast
qed

theorem set_main_true_then_false_witness:
  "swim_get_local_node (the (swim_init env_ok ''n1'' 7946 1000)) = Some 0
   \<and> (let ctx' = swim_set_main_node (swim_set_main_node (the (swim_init env_ok ''n1'' 7946 1000)) True) False in
           swim_get_local_node ctx' = Some 0
         \<and> \<not> ctx_is_main_node ctx'
         \<and> \<not> node_is_main_node (nodes ctx' ! 0)
         \<and> ctx_incarnation ctx' = 3)"
proof -
  have h: "swim_get_local_node (the (swim_init env_ok ''n1'' 7946 1000)) = Some 0"
    by (simp add: swim_init_def env_ok_def swim_create_node_def swim_add_node_def
      fire_node_event_def swim_get_local_node_def Let_def)
  have i: "ctx_incarnation (the (swim_init env_ok ''n1'' 7946 1000)) = 1"
    by (simp add: swim_init_def env_ok_def swim_create_node_def swim_add_node_def
      fire_node_event_def Let_def)
  from set_main_true_then_false [OF h] h i show ?thesis
    by (simp add: Let_def)
qed

section \<open>The coordinator\<close>

lemma drain_tasks_on_task_complete [simp]:
  "on_task_complete (drain_tasks ts c) = on_task_complete c"
  by (induction ts arbitrary: c) (simp_all add: Let_def)

lemma drain_tasks_coord_state [simp]:
  "coord_state (drain_tasks ts c) = coord_state c"
  by (induction ts arbitrary: c) (simp_all add: Let_def)

lemma drain_tasks_tasks_processed:
  "tasks_processed (drain_tasks ts c) = tasks_processed c + of_nat (length ts)"
  by (induction ts arbitrary: c) (simp_all add: Let_def)

lemma drain_tasks_completed_count:
  "completed_count (drain_tasks ts c) = completed_count c + of_nat (length ts)"
  by (induction ts arbitrary: c) (simp_all add: Let_def)

lemma drain_tasks_pending_count:
  "pending_count (drain_tasks ts c) = pending_count c - of_nat (length ts)"
  by (induction ts arbitrary: c) (simp_all add: Let_def)

lemma drain_tasks_completed_tasks:
  "completed_tasks (drain_tasks ts c) = rev ts @ completed_tasks c"
  by (induction ts arbitrary: c) (simp_all add: Let_def)

lemma drain_tasks_calls:
  "task_complete_calls (drain_tasks ts c) =
     task_complete_calls c @ (if on_task_complete c then map (\<lambda>t. (task_id t, True)) ts else [])"
  by (induction ts arbitrary: c) (simp_all add: Let_def)

text \<open>\<open>pending_count\<close> agrees with the pending list from initialisation on.\<close>

lemma coordinator_init_pending:
  assumes "coordinator_init e sw b = Some (coord, sw1)"
  shows "pending_count coord = of_nat (length (pending_tasks coord))"
  using assms
  by (auto simp: coordinator_init_def Let_def split: if_splits option.splits)

lemma submit_keeps_pending:
  assumes "pending_count coord = of_nat (length (pending_tasks coord))"
  shows "pending_count (snd (coordinator_submit_task e coord ty pl len))
           = of_nat (length (pending_tasks (snd (coordinator_submit_task e coord ty pl len))))"
  using assms by (simp add: coordinator_submit_task_def Let_def)

lemma process_keeps_pending:
  assumes "pending_count coord = of_nat (length (pending_tasks coord))"
  shows "pending_count (fst (coordinator_process e (coord, sw)))
           = of_nat (length (pending_tasks (fst (coordinator_process e (coord, sw)))))"
proof (cases "coord_state coord")
  case COORD_STATE_FOLLOWER
  with assms show ?thesis
    by (simp add: coordinator_process_def coordinator_start_election_def become_leader_def Let_def
        split: option.splits)
next
  case COORD_STATE_CANDIDATE
  with assms show ?thesis
    by (simp add: coordinator_process_def become_leader_def Let_def split: option.splits)
next
  case COORD_STATE_LEADER
  with assms show ?thesis
    by (simp add: coordinator_process_def Let_def drain_tasks_pending_count)
qed


text \<open>
  C4. For every Coordinator in the Leader role whose pending queue holds the \<open>n\<close> tasks
  that were submitted (the counter \<open>pending_count\<close> agrees with the list, as \<open>submit\<close>
  keeps it), one tick drains the whole queue: afterwards the pending list is empty and the
  pending count is 0, the completed count and \<open>tasks_processed\<close> have grown by \<open>n\<close>, the
  drained tasks are on the completed list, and \<open>on_task_complete\<close>, when registered, has
  been invoked exactly once per drained task, in queue order, with \<open>success = true\<close>. The
  membership engine is not touched.
\<close>

theorem leader_tick_drains_queue:
  assumes "coord_state coord = COORD_STATE_LEADER"
    and "pending_count coord = of_nat (length (pending_tasks coord))"
  shows "let n = length (pending_tasks coord);
             coord' = fst (coordinator_process e (coord, sw)) in
           pending_tasks coord' = []
         \<and> coordinator_pending_count coord' = 0
         \<and> completed_count coord' = completed_count coord + of_nat n
         \<and> completed_tasks coord' = rev (pending_tasks coord) @ completed_tasks coord
         \<and> tasks_processed coord' = tasks_processed coord + of_nat n
         \<and> task_complete_calls coord' = task_complete_calls coord @
              (if on_task_complete coord
               then map (\<lambda>t. (task_id t, True)) (pending_tasks coord) else [])
         \<and> snd (coordinator_process e (coord, sw)) = sw"
  using assms
  by (simp add: coordinator_process_def Let_def coordinator_pending_count_def
      drain_tasks_tasks_processed drain_tasks_completed_count drain_tasks_pending_count
      drain_tasks_completed_tasks drain_tasks_calls)


text \<open>Three tasks submitted to a leader, then one tick: pending 0, completed 3, three
  callbacks with \<open>success = true\<close>.\<close>

theorem leader_tick_drains_queue_witness:
  "coord_state leader3 = COORD_STATE_LEADER
   \<and> pending_count leader3 = of_nat (length (pending_tasks leader3))
   \<and> length (pending_tasks leader3) = 3
   \<and> (let coord' = fst (coordinator_process env_ok (leader3, snd leader0)) in
         coordinator_pending_count coord' = 0
       \<and> pending_tasks coord' = []
       \<and> completed_count coord' = 3
       \<and> length (completed_tasks coord') = 3
       \<and> tasks_processed coord' = 3
       \<and> task_complete_calls coord' =
            [(''task-1700000000-0'', True), (''task-1700000000-0'', True),
             (''task-1700000000-0'', True)])"
proof -
  have h1: "coord_state leader3 = COORD_STATE_LEADER"
    by (simp add: leader3_def leader0_def eval_defs coord_eval_defs)
  have h2: "pending_count leader3 = of_nat (length (pending_tasks leader3))"
    by (simp add: leader3_def leader0_def eval_defs coord_eval_defs)
  have ids: "map task_id (pending_tasks leader3) =
      [''task-1700000000-0'', ''task-1700000000-0'', ''task-1700000000-0'']"
    by (simp add: leader3_def leader0_def eval_defs coord_eval_defs)
  then have len: "length (pending_tasks leader3) = 3"
    by (metis length_map length_Cons list.size(3) numeral_3_eq_3)
  have z: "completed_count leader3 = 0" "tasks_processed leader3 = 0"
    "task_complete_calls leader3 = []" "on_task_complete leader3" "completed_tasks leader3 = []"
    by (simp_all add: leader3_def leader0_def eval_defs coord_eval_defs)
  have m: "map (\<lambda>t. (task_id t, True)) (pending_tasks leader3)
      = map (\<lambda>i. (i, True)) (map task_id (pending_tasks leader3))"
    by simp
  from leader_tick_drains_queue [OF h1 h2, of env_ok "snd leader0"] h1 h2 len z
  show ?thesis
    unfolding Let_def m ids by simp
qed
lemma become_leader_state:
  "coord_state (fst (become_leader cs)) = COORD_STATE_LEADER"
  by (simp add: become_leader_def Let_def split: option.splits prod.splits)

lemma sint_nonneg_uint:
  fixes w :: "'a::len word"
  assumes "0 \<le> sint w"
  shows "sint w = uint w"
proof -
  have "sint w < 2 ^ (LENGTH('a) - 1)" by (rule sint_lt)
  also have "(2::int) ^ (LENGTH('a) - 1) \<le> 2 ^ LENGTH('a)"
    by (rule power_increasing) simp_all
  finally have "take_bit LENGTH('a) (sint w) = sint w"
    using assms by (simp add: take_bit_int_eq_self)
  then show ?thesis by (simp add: uint_sint)
qed

lemma word_half_less_iff:
  fixes a v :: "32 word"
  shows "a div 2 < v \<longleftrightarrow> uint a div 2 < uint v"
  by (simp add: word_less_def uint_div)

text \<open>
  C5. A Follower whose Membership Engine counts at most one node alive (itself) is left as
  it is by every tick at which the clock has not passed \<open>election_timeout\<close>, and becomes
  Leader on the tick at which the clock exceeds it. A Candidate tick promotes to Leader
  exactly when \<open>votes_received > alive_count / 2\<close>; \<open>votes_received\<close> is a C \<open>int\<close> that
  only ever holds 0 or 1, and the statement is for its non-negative values.
\<close>

theorem follower_and_candidate_promotion:
  "(coord_state coord = COORD_STATE_FOLLOWER \<and> swim_get_node_count sw NODE_STATE_ALIVE \<le> 1 \<longrightarrow>
      (if election_timeout coord < clock_ms e
       then coordinator_is_leader (fst (coordinator_process e (coord, sw)))
       else coordinator_process e (coord, sw) = (coord, sw)))
   \<and> (coord_state coord = COORD_STATE_CANDIDATE \<and> 0 \<le> sint (votes_received coord) \<longrightarrow>
      (coordinator_is_leader (fst (coordinator_process e (coord, sw)))
         \<longleftrightarrow> uint (swim_get_node_count sw NODE_STATE_ALIVE) div 2 < sint (votes_received coord)))"
proof (intro conjI impI)
  assume a: "coord_state coord = COORD_STATE_FOLLOWER \<and> swim_get_node_count sw NODE_STATE_ALIVE \<le> 1"
  show "if election_timeout coord < clock_ms e
        then coordinator_is_leader (fst (coordinator_process e (coord, sw)))
        else coordinator_process e (coord, sw) = (coord, sw)"
  proof (cases "election_timeout coord < clock_ms e")
    case True
    with a have "coordinator_process e (coord, sw) =
        become_leader (coord\<lparr>coord_state := COORD_STATE_CANDIDATE,
                              coord_term := coord_term coord + 1,
                              votes_received := 1,
                              election_timeout := clock_ms e + random_election_timeout e\<rparr>, sw)"
      by (simp add: coordinator_process_def coordinator_start_election_def Let_def)
    with True show ?thesis
      by (simp add: coordinator_is_leader_def become_leader_state)
  next
    case False
    with a show ?thesis
      by (simp add: coordinator_process_def Let_def)
  qed
next
  assume b: "coord_state coord = COORD_STATE_CANDIDATE \<and> 0 \<le> sint (votes_received coord)"
  then have s: "sint (votes_received coord) = uint (votes_received coord)"
    by (simp add: sint_nonneg_uint)
  show "coordinator_is_leader (fst (coordinator_process e (coord, sw)))
         \<longleftrightarrow> uint (swim_get_node_count sw NODE_STATE_ALIVE) div 2 < sint (votes_received coord)"
  proof (cases "swim_get_node_count sw NODE_STATE_ALIVE div 2 < votes_received coord")
    case True
    with b have "coordinator_process e (coord, sw) = become_leader (coord, sw)"
      by (simp add: coordinator_process_def Let_def)
    with True show ?thesis
      by (simp add: coordinator_is_leader_def become_leader_state s word_half_less_iff)
  next
    case False
    with b have "coordinator_process e (coord, sw) = (coord, sw)"
      by (simp add: coordinator_process_def Let_def)
    with False b show ?thesis
      by (simp add: coordinator_is_leader_def s word_half_less_iff)
  qed
qed

theorem follower_and_candidate_promotion_witness:
  "coord_state (fst follower0) = COORD_STATE_FOLLOWER
   \<and> swim_get_node_count (snd follower0) NODE_STATE_ALIVE \<le> 1
   \<and> election_timeout (fst follower0) = 1150
   \<and> coordinator_process (env_ok\<lparr>clock_ms := 1150\<rparr>) follower0 = follower0
   \<and> coordinator_is_leader (fst (coordinator_process (env_ok\<lparr>clock_ms := 1151\<rparr>) follower0))
   \<and> coord_state (fst candidate0) = COORD_STATE_CANDIDATE
   \<and> votes_received (fst candidate0) = 1
   \<and> swim_get_node_count (snd candidate0) NODE_STATE_ALIVE = 2
   \<and> \<not> coordinator_is_leader (fst (coordinator_process env_ok candidate0))
   \<and> coordinator_is_leader (fst (coordinator_process env_ok (fst candidate0, snd follower0)))"
proof -
  have f: "coord_state (fst follower0) = COORD_STATE_FOLLOWER"
    "swim_get_node_count (snd follower0) NODE_STATE_ALIVE = 1"
    "election_timeout (fst follower0) = 1150"
    by (simp_all add: follower0_def eval_defs coord_eval_defs swim_get_node_count_def)
  have c: "coord_state (fst candidate0) = COORD_STATE_CANDIDATE"
    "votes_received (fst candidate0) = 1"
    "swim_get_node_count (snd candidate0) NODE_STATE_ALIVE = 2"
    by (simp_all add: candidate0_def peer_ctx_def coordinator_start_election_def
        eval_defs coord_eval_defs swim_get_node_count_def)
  note t = follower_and_candidate_promotion
  from t [of "fst follower0" "snd follower0" "env_ok\<lparr>clock_ms := 1150\<rparr>"] f
  have w1: "coordinator_process (env_ok\<lparr>clock_ms := 1150\<rparr>) follower0 = follower0"
    by simp
  from t [of "fst follower0" "snd follower0" "env_ok\<lparr>clock_ms := 1151\<rparr>"] f
  have w2: "coordinator_is_leader (fst (coordinator_process (env_ok\<lparr>clock_ms := 1151\<rparr>) follower0))"
    by simp
  from t [of "fst candidate0" "snd candidate0" env_ok] c
  have w3: "\<not> coordinator_is_leader (fst (coordinator_process env_ok candidate0))"
    by simp
  from t [of "fst candidate0" "snd follower0" env_ok] c f
  have w4: "coordinator_is_leader (fst (coordinator_process env_ok (fst candidate0, snd follower0)))"
    by simp
  from f c w1 w2 w3 w4 show ?thesis by simp
qed


section \<open>Strings on the wire\<close>

text \<open>A byte list that holds a NUL is a C string followed by the NUL and the rest.\<close>

lemma nul_split:
  assumes "CHR 0x00 \<in> set xs"
  shows "\<exists>rest. xs = takeWhile (\<lambda>c. c \<noteq> CHR 0x00) xs @ CHR 0x00 # rest"
proof -
  let ?P = "\<lambda>c. c \<noteq> CHR 0x00"
  from assms have ne: "dropWhile ?P xs \<noteq> []" by (auto simp: dropWhile_eq_Nil_conv)
  then have "\<not> ?P (hd (dropWhile ?P xs))" by (rule hd_dropWhile)
  with ne have "dropWhile ?P xs = CHR 0x00 # tl (dropWhile ?P xs)"
    by (cases "dropWhile ?P xs") simp_all
  moreover have "xs = takeWhile ?P xs @ dropWhile ?P xs" by simp
  ultimately show ?thesis by metis
qed

lemma takeWhile_cstring:
  "cstring s \<Longrightarrow> takeWhile (\<lambda>c. c \<noteq> CHR 0x00) (s @ CHR 0x00 # rest) = s"
  by (induction s) (auto simp: cstring_def)

lemma cstring_takeWhile: "cstring (takeWhile (\<lambda>c. c \<noteq> CHR 0x00) xs)"
  by (auto simp: cstring_def dest: set_takeWhileD)

lemma takeWhile_take_nul:
  assumes "CHR 0x00 \<in> set (take n xs)"
  shows "takeWhile (\<lambda>c. c \<noteq> CHR 0x00) (take n xs) = takeWhile (\<lambda>c. c \<noteq> CHR 0x00) xs"
proof -
  from nul_split [OF assms] obtain rest where
    r: "take n xs = takeWhile (\<lambda>c. c \<noteq> CHR 0x00) (take n xs) @ CHR 0x00 # rest" by blast
  define tw where "tw = takeWhile (\<lambda>c. c \<noteq> CHR 0x00) (take n xs)"
  have cs: "cstring tw" unfolding tw_def by (rule cstring_takeWhile)
  have "xs = take n xs @ drop n xs" by simp
  also have "take n xs = tw @ CHR 0x00 # rest" using r by (simp only: tw_def)
  finally have "xs = tw @ CHR 0x00 # (rest @ drop n xs)" by simp
  then have "takeWhile (\<lambda>c. c \<noteq> CHR 0x00) xs = tw"
    using takeWhile_cstring [OF cs, of "rest @ drop n xs"] by simp
  then show ?thesis by (simp only: tw_def)
qed

lemma strcmp_wire_decoded:
  assumes cs: "cstring s" and len: "off + length s < length data"
  shows "strcmp_wire s data off = Inr (takeWhile (\<lambda>c. c \<noteq> CHR 0x00) (drop off data) = s)"
proof -
  let ?P = "\<lambda>c. c \<noteq> CHR 0x00"
  let ?a = "drop off data"
  from len have l: "length s < length ?a" by simp
  have "(take (Suc (length s)) ?a = s @ [CHR 0x00]) = (takeWhile ?P ?a = s)"
  proof
    assume t: "take (Suc (length s)) ?a = s @ [CHR 0x00]"
    have "?a = take (Suc (length s)) ?a @ drop (Suc (length s)) ?a"
      by (rule append_take_drop_id [symmetric])
    with t have "?a = s @ CHR 0x00 # drop (Suc (length s)) ?a" by simp
    then show "takeWhile ?P ?a = s" using takeWhile_cstring [OF cs] by metis
  next
    assume t: "takeWhile ?P ?a = s"
    have a: "?a = takeWhile ?P ?a @ dropWhile ?P ?a" by simp
    with l t have ne: "dropWhile ?P ?a \<noteq> []" by (metis append_Nil2 less_irrefl)
    then have "\<not> ?P (hd (dropWhile ?P ?a))" by (rule hd_dropWhile)
    with ne have "dropWhile ?P ?a = CHR 0x00 # tl (dropWhile ?P ?a)"
      by (cases "dropWhile ?P ?a") simp_all
    with a t have "?a = s @ CHR 0x00 # tl (dropWhile ?P ?a)" by metis
    then have "take (Suc (length s)) ?a = take (Suc (length s)) (s @ CHR 0x00 # tl (dropWhile ?P ?a))"
      by simp
    then show "take (Suc (length s)) ?a = s @ [CHR 0x00]" by simp
  qed
  with l show ?thesis by (simp add: strcmp_wire_def Let_def)
qed

lemma find_wire_decoded:
  assumes "\<forall>n\<in>set ns. node_id_ok (node_id n)" and "off + 64 \<le> length data"
  shows "find_wire ns data off
           = Inr (find_first (\<lambda>n. node_id n = takeWhile (\<lambda>c. c \<noteq> CHR 0x00) (drop off data)) ns)"
  using assms
proof (induction ns)
  case Nil
  then show ?case by simp
next
  case (Cons n ns)
  from Cons.prems have "cstring (node_id n)" and "off + length (node_id n) < length data"
    by (simp_all add: node_id_ok_def SWIM_NODE_ID_SIZE_def)
  then have "strcmp_wire (node_id n) data off
      = Inr (takeWhile (\<lambda>c. c \<noteq> CHR 0x00) (drop off data) = node_id n)"
    by (rule strcmp_wire_decoded)
  moreover from Cons have "find_wire ns data off
           = Inr (find_first (\<lambda>n. node_id n = takeWhile (\<lambda>c. c \<noteq> CHR 0x00) (drop off data)) ns)"
    by simp
  ultimately show ?case by (auto simp: ebind_def)
qed

lemma strncpy_wire_decoded:
  assumes nul: "CHR 0x00 \<in> set (take 64 (drop off data))" and len: "off + 64 \<le> length data"
  shows "strncpy_wire 64 data off = Inr (takeWhile (\<lambda>c. c \<noteq> CHR 0x00) (take 64 (drop off data)))"
proof -
  let ?P = "\<lambda>c. c \<noteq> CHR 0x00"
  define f where "f = take 64 (drop off data)"
  define tw where "tw = takeWhile ?P f"
  from nul_split [of f] nul obtain rest where r: "f = tw @ CHR 0x00 # rest"
    unfolding f_def tw_def by blast
  from len have l64: "length f = 64" by (simp add: f_def)
  have cs: "cstring tw" unfolding tw_def by (rule cstring_takeWhile)
  from r l64 have lt: "length tw \<le> 63" by simp
  have t63: "take 63 (drop off data) = take 63 f" by (simp add: f_def)
  have "takeWhile ?P (take 63 f) = tw"
  proof (cases "length tw = 63")
    case True
    with r have "take 63 f = tw" by simp
    then show ?thesis using cs by (auto simp: cstring_def takeWhile_eq_all_conv)
  next
    case False
    with lt have "length tw < 63" by simp
    then have "take 63 f = tw @ CHR 0x00 # take (62 - length tw) rest"
      by (simp add: r take_Cons')
    then show ?thesis using takeWhile_cstring [OF cs] by simp
  qed
  moreover have "length (take 63 f) = 63" using l64 by simp
  ultimately have "strncpy_wire 64 data off = Inr tw" using t63
    by (simp add: strncpy_wire_def Let_def)
  then show ?thesis by (simp only: tw_def f_def)
qed


text \<open>Ids made by \<open>swim_create_node\<close> and \<open>swim_init\<close> are \<open>NodeId\<close>s, and copying a
  \<open>NodeId\<close> keeps it.\<close>

lemma strncpy0_id_ok: "node_id_ok (strncpy0 SWIM_NODE_ID_SIZE s)"
  by (auto simp: node_id_ok_def cstring_def strncpy0_def SWIM_NODE_ID_SIZE_def
      dest: in_set_takeD set_takeWhileD)


text \<open>\<open>swim_init\<close> fails only when allocation or the socket fails, and the engine it
  returns has \<open>NodeId\<close>s as ids and its nodes in one of the four states.\<close>

lemma swim_init_None:
  "swim_init e lid p iv = None \<longleftrightarrow> \<not> alloc_ok e \<or> \<not> bind_ok e"
  by (simp add: swim_init_def Let_def swim_create_node_def swim_add_node_def)

lemma swim_init_ids_ok:
  assumes "swim_init e lid p iv = Some ctx"
  shows "ids_ok ctx" and "states_ok ctx"
  using assms strncpy0_id_ok [of lid]
  by (auto simp: swim_init_def Let_def swim_create_node_def swim_add_node_def
      fire_node_event_def ids_ok_def states_ok_def NODE_STATE_ALIVE_def split: if_splits)

section \<open>Sync merge\<close>

lemma fire_node_event_frame [simp]:
  "nodes (fire_node_event ctx ev) = nodes ctx"
  "local_id (fire_node_event ctx ev) = local_id ctx"
  by (simp_all add: fire_node_event_def)

lemma update_node_state_valid:
  assumes "node_state (nodes ctx ! k) < 4" and "s < 4"
  shows "swim_update_node_state e ctx k s =
     Inr (if node_state (nodes ctx ! k) = s then ctx
          else fire_node_event
                 (ctx\<lparr>nodes := (nodes ctx)[k := (nodes ctx ! k)\<lparr>node_state := s,
                                        node_state_change_time := time_now e\<rparr>]\<rparr>)
                 (node_id (nodes ctx ! k), node_state (nodes ctx ! k), s))"
  using assms by (simp add: swim_update_node_state_def Let_def)






lemma rd_word_in_bounds:
  "off + n \<le> length data \<Longrightarrow> rd_word data off n = Inr (le_word (take n (drop off data)))"
  by (simp add: rd_word_def rd_def ebind_def)

lemma record_at_Some:
  assumes "record_at data off = Some u"
  shows "off + SIZEOF_UPDATE \<le> length data"
    and "CHR 0x00 \<in> set (take 64 (drop off data))"
    and "CHR 0x00 \<in> set (take 64 (drop (off + 64) data))"
    and "upd_id u = takeWhile (\<lambda>c. c \<noteq> CHR 0x00) (take 64 (drop off data))"
    and "upd_address u = takeWhile (\<lambda>c. c \<noteq> CHR 0x00) (take 64 (drop (off + 64) data))"
    and "upd_port u = le_word (take 2 (drop (off + 128) data))"
    and "upd_state u = le_word (take 1 (drop (off + 130) data))"
    and "upd_incarnation u = le_word (take 4 (drop (off + 132) data))"
    and "upd_is_main_node u = le_word (take 1 (drop (off + 136) data))"
  using assms by (auto simp: record_at_def split: if_splits)


text \<open>On a record that is complete in the datagram, the reads of the loop body of the
  handler return the fields of the record: the byte-level body and the record-level body
  agree.\<close>

lemma sync_record_decoded:
  assumes r: "record_at data off = Some u" and ids: "ids_ok ctx"
  shows "sync_record e data off ctx = sync_apply_update e ctx u"
proof -
  note f = record_at_Some [OF r]
  from f(1) have len: "off + 140 \<le> length data" by (simp add: SIZEOF_UPDATE_def)
  have i: "takeWhile (\<lambda>c. c \<noteq> CHR 0x00) (drop off data) = upd_id u"
    using takeWhile_take_nul [OF f(2)] f(4) by simp
  from ids have "cstring (local_id ctx)" and "off + length (local_id ctx) < length data"
    using len by (simp_all add: ids_ok_def node_id_ok_def SWIM_NODE_ID_SIZE_def)
  then have a: "strcmp_wire (local_id ctx) data off = Inr (upd_id u = local_id ctx)"
    using strcmp_wire_decoded [of "local_id ctx" off data] i by simp
  have b: "find_wire (nodes ctx) data off = Inr (swim_find_node ctx (upd_id u))"
    using find_wire_decoded [of "nodes ctx" off data] ids len i
    by (simp add: ids_ok_def swim_find_node_def)
  have c: "strncpy_wire SWIM_NODE_ID_SIZE data off = Inr (upd_id u)"
    using strncpy_wire_decoded [OF f(2)] len f(4) by (simp add: SWIM_NODE_ID_SIZE_def)
  have d: "strncpy_wire 64 data (off + 64) = Inr (upd_address u)"
    using strncpy_wire_decoded [OF f(3)] len f(5) by simp
  have w: "rd_word data (off + 128) 2 = Inr (upd_port u)"
          "rd_word data (off + 130) 1 = Inr (upd_state u)"
          "rd_word data (off + 132) 4 = Inr (upd_incarnation u)"
          "rd_word data (off + 136) 1 = Inr (upd_is_main_node u)"
    using len f(6-9) by (simp_all add: rd_word_in_bounds)
  note w1 = w [unfolded One_nat_def]
  show ?thesis
    by (simp add: sync_record_def sync_apply_update_def a b c d w w1 ebind_def
        swim_create_node_def split: option.splits)
qed














text \<open>
  Two behaviours of the handler on records outside the statement above. A record for a
  known node with greater incarnation and a state byte that is not one of the four
  states makes \<open>swim_update_node_state\<close> index \<open>state_names\<close> beyond its four entries. A
  record whose id field has no terminator matches no known node in \<open>swim_find_node\<close>;
  \<open>swim_create_node\<close> cuts the id to 63 bytes, and \<open>swim_add_node\<close> finds the node with
  that id and overwrites its incarnation and state without comparing incarnations: the
  node held Alive at incarnation 10 becomes Dead at incarnation 3.
\<close>

lemma state_byte_outside_table:
  "local_copy ctx_c10 ''c'' = Some (NODE_STATE_ALIVE, 10, False)
   \<and> swim_handle_message env_ok ctx_c10 (''10.0.0.2'', 7947) sync_c11_state4 = Inl BadStateName"
  by (simp add: ctx_c10_def sync_c10_def sync_c11_state4_def record_c_bytes_def local_copy_def
      swim_handle_message_def wire_eval msg_type_defs peer_ctx_def eval_defs
      refresh_sender_def sync_loop.simps)

lemma unterminated_id_regresses:
  "local_copy ctx_long10 id63 = Some (NODE_STATE_ALIVE, 10, False)
   \<and> \<not> isl (swim_handle_message env_ok ctx_long10 (''10.0.0.2'', 7947) sync_long64)
   \<and> local_copy (projr (swim_handle_message env_ok ctx_long10 (''10.0.0.2'', 7947) sync_long64)) id63
        = Some (NODE_STATE_DEAD, 3, False)"
  by (simp add: ctx_long10_def sync_long10_def sync_long64_def record_long_bytes_def id63_def
      local_copy_def swim_handle_message_def wire_eval msg_type_defs peer_ctx_def eval_defs
      refresh_sender_def sync_loop.simps)

section \<open>The main flag in outgoing Sync messages\<close>

lemma set_main_node_frame:
  assumes "swim_get_local_node ctx = Some k"
  shows "node_incarnation (nodes (swim_set_main_node ctx b) ! k) = node_incarnation (nodes ctx ! k)"
    and "node_id (nodes (swim_set_main_node ctx b) ! k) = node_id (nodes ctx ! k)"
    and "ctx_incarnation (swim_set_main_node ctx b) = ctx_incarnation ctx + 1"
    and "node_is_main_node (nodes (swim_set_main_node ctx b) ! k) = b"
    and "length (nodes (swim_set_main_node ctx b)) = length (nodes ctx)"
proof -
  from assms have k: "k < length (nodes ctx)"
    by (simp add: swim_get_local_node_def find_first_Some)
  show "node_incarnation (nodes (swim_set_main_node ctx b) ! k) = node_incarnation (nodes ctx ! k)"
    and "node_id (nodes (swim_set_main_node ctx b) ! k) = node_id (nodes ctx ! k)"
    and "ctx_incarnation (swim_set_main_node ctx b) = ctx_incarnation ctx + 1"
    and "node_is_main_node (nodes (swim_set_main_node ctx b) ! k) = b"
    and "length (nodes (swim_set_main_node ctx b)) = length (nodes ctx)"
    using k by (simp_all add: set_main_node_local [OF assms])
qed

lemma set_main_calls_frame:
  assumes "swim_get_local_node ctx = Some k"
  shows "swim_get_local_node (foldl swim_set_main_node ctx bs) = Some k
       \<and> node_incarnation (nodes (foldl swim_set_main_node ctx bs) ! k) = node_incarnation (nodes ctx ! k)
       \<and> node_id (nodes (foldl swim_set_main_node ctx bs) ! k) = node_id (nodes ctx ! k)
       \<and> length (nodes (foldl swim_set_main_node ctx bs)) = length (nodes ctx)
       \<and> ctx_incarnation (foldl swim_set_main_node ctx bs) = ctx_incarnation ctx + of_nat (length bs)"
  using assms
proof (induction bs arbitrary: ctx)
  case Nil
  then show ?case by simp
next
  case (Cons b bs)
  have l: "swim_get_local_node (swim_set_main_node ctx b) = Some k"
    by (rule set_main_node_keeps_local [OF Cons.prems])
  from Cons.IH [OF l] set_main_node_frame [OF Cons.prems, of b]
  show ?case by simp
qed

lemma send_sync_outbox:
  assumes "swim_send_sync e ctx t = Inr sent"
  shows "\<exists>h n. outbox sent = outbox ctx @
           [(node_address (nodes ctx ! t), node_port (nodes ctx ! t),
             Sync h n (map node_update_of (take 50 (nodes ctx))))]
         \<and> hdr_incarnation h = ctx_incarnation ctx"
  using assms
  by (auto simp: swim_send_sync_def Let_def sendto_def send_header_def split: if_splits)

lemma stale_record_ignored:
  assumes "swim_find_node peer (upd_id u) = Some j"
    and "upd_incarnation u \<le> node_incarnation (nodes peer ! j)"
  shows "sync_apply_update e peer u = Inr peer"
proof -
  from assms(2) have "\<not> node_incarnation (nodes peer ! j) < upd_incarnation u"
    by (simp add: not_less)
  with assms(1) show ?thesis by (simp add: sync_apply_update_def)
qed

text \<open>
  C10. \<open>swim_set_main_node\<close> increments only the context's \<open>incarnation\<close>, the one put
  into message headers; the \<open>incarnation\<close> field of the local node's record is not
  written. For an engine whose local record has its creation-time incarnation 1 and for
  every sequence of \<open>set_main\<close> calls: the local record still has incarnation 1, the
  context's incarnation has grown by the number of calls, a Sync message sent afterwards
  carries the context's incarnation in its header and the node records as they are (the
  local one with incarnation 1, if it is among the first 50), and a peer that holds a
  record for this node at incarnation at least 1 is left unchanged by the local node's
  record, so it does not adopt the main flag from it; this holds for the loop body on
  the record as a value and for the loop body of the handler on a datagram that carries
  the record.
\<close>

theorem set_main_not_propagated_by_sync:
  assumes loc: "swim_get_local_node ctx = Some k"
    and inc1: "node_incarnation (nodes ctx ! k) = 1"
  shows "let ctx' = foldl swim_set_main_node ctx bs;
             u = node_update_of (nodes ctx' ! k) in
           swim_get_local_node ctx' = Some k
         \<and> node_incarnation (nodes ctx' ! k) = 1
         \<and> ctx_incarnation ctx' = ctx_incarnation ctx + of_nat (length bs)
         \<and> upd_incarnation u = 1
         \<and> (\<forall>sent. swim_send_sync e ctx' t = Inr sent \<longrightarrow>
               (\<exists>h n us. outbox sent = outbox ctx' @
                    [(node_address (nodes ctx' ! t), node_port (nodes ctx' ! t), Sync h n us)]
                  \<and> hdr_incarnation h = ctx_incarnation ctx'
                  \<and> us = map node_update_of (take 50 (nodes ctx'))
                  \<and> (k < 50 \<longrightarrow> us ! k = u)))
         \<and> (\<forall>peer j. swim_find_node peer (upd_id u) = Some j
                \<and> 1 \<le> node_incarnation (nodes peer ! j)
                \<longrightarrow> sync_apply_update e' peer u = Inr peer)
         \<and> (\<forall>peer j data off. ids_ok peer \<and> record_at data off = Some u
                \<and> swim_find_node peer (upd_id u) = Some j
                \<and> 1 \<le> node_incarnation (nodes peer ! j)
                \<longrightarrow> sync_record e' data off peer = Inr peer)"
proof -
  let ?c = "foldl swim_set_main_node ctx bs"
  let ?u = "node_update_of (nodes ?c ! k)"
  note fr = set_main_calls_frame [OF loc, of bs]
  from fr inc1 have i: "node_incarnation (nodes ?c ! k) = 1" by simp
  then have ui: "upd_incarnation ?u = 1" by (simp add: node_update_of_def)
  from loc have k: "k < length (nodes ctx)"
    by (simp add: swim_get_local_node_def find_first_Some)
  with fr have k': "k < length (nodes ?c)" by simp
  have s: "\<forall>sent. swim_send_sync e ?c t = Inr sent \<longrightarrow>
               (\<exists>h n us. outbox sent = outbox ?c @
                    [(node_address (nodes ?c ! t), node_port (nodes ?c ! t), Sync h n us)]
                  \<and> hdr_incarnation h = ctx_incarnation ?c
                  \<and> us = map node_update_of (take 50 (nodes ?c))
                  \<and> (k < 50 \<longrightarrow> us ! k = ?u))"
  proof (intro allI impI)
    fix sent
    assume "swim_send_sync e ?c t = Inr sent"
    from send_sync_outbox [OF this] obtain h n where
      o: "outbox sent = outbox ?c @
           [(node_address (nodes ?c ! t), node_port (nodes ?c ! t),
             Sync h n (map node_update_of (take 50 (nodes ?c))))]"
      and hi: "hdr_incarnation h = ctx_incarnation ?c"
      by blast
    have "k < 50 \<longrightarrow> map node_update_of (take 50 (nodes ?c)) ! k = ?u"
      using k' by simp
    with o hi ui show "\<exists>h n us. outbox sent = outbox ?c @
                    [(node_address (nodes ?c ! t), node_port (nodes ?c ! t), Sync h n us)]
                  \<and> hdr_incarnation h = ctx_incarnation ?c
                  \<and> us = map node_update_of (take 50 (nodes ?c))
                  \<and> (k < 50 \<longrightarrow> us ! k = ?u)"
      by blast
  qed
  have p: "\<forall>peer j. swim_find_node peer (upd_id ?u) = Some j
                \<and> 1 \<le> node_incarnation (nodes peer ! j)
                \<longrightarrow> sync_apply_update e' peer ?u = Inr peer"
    using ui by (auto intro: stale_record_ignored)
  have q: "\<forall>peer j data off. ids_ok peer \<and> record_at data off = Some ?u
                \<and> swim_find_node peer (upd_id ?u) = Some j
                \<and> 1 \<le> node_incarnation (nodes peer ! j)
                \<longrightarrow> sync_record e' data off peer = Inr peer"
    using p by (auto simp: sync_record_decoded)
  from fr i ui s p q show ?thesis
    unfolding Let_def by blast
qed


theorem set_main_not_propagated_by_sync_witness:
  "swim_get_local_node peer_ctx = Some 1
   \<and> node_incarnation (nodes peer_ctx ! 1) = 1
   \<and> (let ctx' = foldl swim_set_main_node peer_ctx [True];
            u = node_update_of (nodes ctx' ! 1) in
          ctx_incarnation ctx' = 2
        \<and> upd_id u = ''a''
        \<and> upd_is_main_node u = 1
        \<and> upd_incarnation u = 1
        \<and> swim_find_node peer_b ''a'' = Some 0
        \<and> \<not> node_is_main_node (nodes peer_b ! 0)
        \<and> sync_apply_update env_ok peer_b u = Inr peer_b)"
proof -
  have h1: "swim_get_local_node peer_ctx = Some 1"
    by (simp add: peer_ctx_def eval_defs)
  have h2: "node_incarnation (nodes peer_ctx ! 1) = 1"
    by (simp add: peer_ctx_def eval_defs)
  let ?c = "foldl swim_set_main_node peer_ctx [True]"
  let ?u = "node_update_of (nodes ?c ! 1)"
  have ci: "ctx_incarnation peer_ctx = 1"
    by (simp add: peer_ctx_def eval_defs)
  have u: "upd_id ?u = ''a''" "upd_is_main_node ?u = 1"
    by (simp_all add: peer_ctx_def eval_defs node_update_of_def)
  have b: "swim_find_node peer_b ''a'' = Some 0" "\<not> node_is_main_node (nodes peer_b ! 0)"
    "1 \<le> node_incarnation (nodes peer_b ! 0)"
    by (simp_all add: peer_b_def eval_defs)
  note t = set_main_not_propagated_by_sync [OF h1 h2, of "[True]" env_ok 0 env_ok, unfolded Let_def]
  from t have t3: "ctx_incarnation ?c = ctx_incarnation peer_ctx + of_nat (length [True])"
    and t4: "upd_incarnation ?u = 1"
    and t6: "\<forall>peer j. swim_find_node peer (upd_id ?u) = Some j
                \<and> 1 \<le> node_incarnation (nodes peer ! j)
                \<longrightarrow> sync_apply_update env_ok peer ?u = Inr peer"
    by blast+
  from t6 b u have "sync_apply_update env_ok peer_b ?u = Inr peer_b"
    by simp
  with h1 h2 t3 t4 ci u b show ?thesis
    unfolding Let_def by simp
qed

section \<open>The port pool\<close>

lemma start_node_frame:
  "ports_of (snd (node_manager_start_node e mgr nid)) = ports_of mgr
   \<and> instance_count (snd (node_manager_start_node e mgr nid)) = instance_count mgr
   \<and> max_instances (snd (node_manager_start_node e mgr nid)) = max_instances mgr
   \<and> port_range_start (snd (node_manager_start_node e mgr nid)) = port_range_start mgr
   \<and> port_range_end (snd (node_manager_start_node e mgr nid)) = port_range_end mgr
   \<and> next_available_port (snd (node_manager_start_node e mgr nid)) = next_available_port mgr
   \<and> length (instances (snd (node_manager_start_node e mgr nid))) = length (instances mgr)"
proof (cases "node_manager_get_node mgr nid")
  case None
  then show ?thesis by (simp add: node_manager_start_node_def)
next
  case (Some k)
  then have k: "k < length (instances mgr)"
    by (simp add: node_manager_get_node_def find_first_Some)
  have m: "\<And>f. (map (\<lambda>n. (swim_port n, ws_port n)) (instances mgr))[k := (swim_port (instances mgr ! k), ws_port (instances mgr ! k))]
      = map (\<lambda>n. (swim_port n, ws_port n)) (instances mgr)"
    using k by (simp add: list_update_same_conv)
  show ?thesis
    using Some k m
    by (simp add: node_manager_start_node_def Let_def ports_of_def map_update
        split: prod.splits)
qed

lemma alloc_exhausted:
  assumes "ports_of m = [(7946, 7947)]"
    and "port_range_start m = 7946" and "port_range_end m = 7948"
    and "next_available_port m = 7946"
  shows "node_manager_allocate_port m = (0, m)"
proof -
  from assms(1) obtain n where n: "instances m = [n]" "swim_port n = 7946" "ws_port n = 7947"
    by (auto simp: ports_of_def)
  have u: "\<And>p. port_in_use (instances m) p \<longleftrightarrow> p = 7946 \<or> p = 7947"
    using n by auto
  have "alloc_scan m 7946 7946 = (7946, False)"
    by (simp add: alloc_scan.simps [of m] u assms)
  with assms show ?thesis
    by (simp add: node_manager_allocate_port_def)
qed

lemma create_exhausted:
  assumes "ports_of m = [(7946, 7947)]"
    and "port_range_start m = 7946" and "port_range_end m = 7948"
    and "next_available_port m = 7946"
    and "cfg_swim_port c = 0"
  shows "node_manager_create_node e m c = Inr (None, m)"
  using alloc_exhausted [OF assms(1-4)] assms(5)
  by (simp add: node_manager_create_node_def)


lemma add_node_valid:
  assumes sts: "states_ok ctx" and sv: "node_state n < 4"
  shows "\<exists>c. swim_add_node e ctx n = Inr c \<and> length (nodes c) \<le> Suc (length (nodes ctx))"
proof (cases "find_first (\<lambda>m. node_id m = node_id n) (nodes ctx)")
  case None
  then show ?thesis by (simp add: swim_add_node_def)
next
  case (Some k)
  from find_first_Some [OF Some] have k: "k < length (nodes ctx)" by simp
  with sts have "node_state (nodes ctx ! k) < 4" by (simp add: states_ok_def)
  with Some k sv show ?thesis
    by (simp add: swim_add_node_def Let_def update_node_state_valid)
qed

lemma swim_join_ok:
  assumes "length (nodes ctx) \<le> 27" and "states_ok ctx"
  shows "\<exists>ok c'. swim_join e ctx a p = Inr (ok, c')"
proof -
  have len_ping: "\<And>c k. length (nodes (swim_send_ping e c k)) = length (nodes c)"
    by (simp add: swim_send_ping_def Let_def sendto_def)
  have sync_ok: "\<And>c k. length (nodes c) \<le> 28 \<Longrightarrow> \<exists>c'. swim_send_sync e c k = Inr c'"
    by (simp add: swim_send_sync_def Let_def SYNC_BUFFER_SIZE_def SIZEOF_SYNC_def
        SIZEOF_UPDATE_def) arith
  show ?thesis
  proof (cases "swim_create_node e (take (SWIM_NODE_ID_SIZE - 1) (''seed-'' @ a @ '':'' @ dec_nat (unat p))) a p")
    case None
    then show ?thesis by (auto simp: swim_join_def Let_def)
  next
    case (Some seed)
    then have "node_state seed < 4"
      by (auto simp: swim_create_node_def NODE_STATE_ALIVE_def split: if_splits)
    from add_node_valid [OF assms(2) this, of e] assms(1)
    obtain c1 where c1: "swim_add_node e ctx seed = Inr c1" and l1: "length (nodes c1) \<le> 28"
      by auto
    show ?thesis
    proof (cases "swim_find_node c1
                    (take (SWIM_NODE_ID_SIZE - 1) (''seed-'' @ a @ '':'' @ dec_nat (unat p)))")
      case None
      with Some c1 show ?thesis by (auto simp: swim_join_def Let_def ebind_def)
    next
      case found: (Some k)
      from l1 len_ping have "length (nodes (swim_send_ping e c1 k)) \<le> 28"
        by simp
      from sync_ok [OF this] obtain c' where
        "swim_send_sync e (swim_send_ping e c1 k) k = Inr c'"
        by blast
      with found Some c1 show ?thesis
        by (auto simp: swim_join_def Let_def ebind_def)
    qed
  qed
qed

lemma swim_init_nodes:
  "swim_init e i p iv = Some ctx \<Longrightarrow> length (nodes ctx) \<le> 1 \<and> states_ok ctx"
  by (auto simp: swim_init_def Let_def swim_create_node_def swim_add_node_def
      fire_node_event_def states_ok_def NODE_STATE_ALIVE_def split: if_splits)

lemma set_main_node_length [simp]:
  "length (nodes (swim_set_main_node ctx b)) = length (nodes ctx)"
  by (simp add: swim_set_main_node_def Let_def split: option.splits)

lemma map_update_same:
  "(\<And>x. f (g x) = f x) \<Longrightarrow> map f (xs[k := g (xs ! k)]) = map f xs"
  by (induction xs arbitrary: k) (auto split: nat.splits)

lemma set_main_node_states [simp]:
  "map node_state (nodes (swim_set_main_node ctx b)) = map node_state (nodes ctx)"
  using map_update_same [of node_state "\<lambda>n. n\<lparr>node_is_main_node := b\<rparr>" "nodes ctx"]
  by (simp add: swim_set_main_node_def Let_def split: option.splits)

lemma states_ok_map: "states_ok ctx \<longleftrightarrow> (\<forall>s\<in>set (map node_state (nodes ctx)). s < 4)"
  by (simp add: states_ok_def)

lemma coordinator_init_nodes:
  "coordinator_init e sw b = Some (coord, sw1) \<Longrightarrow>
     length (nodes sw1) = length (nodes sw)
   \<and> map node_state (nodes sw1) = map node_state (nodes sw)"
  by (auto simp: coordinator_init_def Let_def split: if_splits option.splits)

lemma start_node_head_nodes:
  "instances mgr \<noteq> [] \<Longrightarrow>
   nodes (swim (instances (snd (node_manager_start_node e mgr nid)) ! 0))
     = nodes (swim (instances mgr ! 0))"
proof (cases "node_manager_get_node mgr nid")
  case None
  then show ?thesis by (simp add: node_manager_start_node_def)
next
  case (Some k)
  assume ne: "instances mgr \<noteq> []"
  from Some have k: "k < length (instances mgr)"
    by (simp add: node_manager_get_node_def find_first_Some)
  show ?thesis
    using Some k ne
    by (cases "k = 0")
       (auto simp: node_manager_start_node_def Let_def swim_start_def split: prod.splits if_splits)
qed

lemma ports_of_update_swim:
  "ports_of (mm\<lparr>instances := (instances mm)[k := (instances mm ! k)\<lparr>swim := s\<rparr>]\<rparr>) = ports_of mm"
  using map_update_same [of "\<lambda>n. (swim_port n, ws_port n)" "\<lambda>n. n\<lparr>swim := s\<rparr>" "instances mm" k]
  by (simp add: ports_of_def)

lemma create_first:
  assumes e: "alloc_ok e" "bind_ok e"
    and c: "cfg_swim_port c = 0" "cfg_ws_port c = 0"
    and m: "instances m = []" "instance_count m = 0" "max_instances m = MAX_NODES_PER_SERVER"
      "port_range_start m = 7946" "port_range_end m = 7948" "next_available_port m = 7946"
  shows "\<exists>m1. node_manager_create_node e m c = Inr (Some 0, m1)
           \<and> ports_of m1 = [(7946, 7947)] \<and> instance_count m1 = 1
           \<and> max_instances m1 = MAX_NODES_PER_SERVER
           \<and> port_range_start m1 = 7946 \<and> port_range_end m1 = 7948
           \<and> next_available_port m1 = 7946"
proof -
  have a1: "node_manager_allocate_port m = (7946, m\<lparr>next_available_port := 7947\<rparr>)"
    by (simp add: node_manager_allocate_port_def alloc_scan.simps [of m] m)
  have a2: "node_manager_allocate_port (m\<lparr>next_available_port := 7947\<rparr>)
      = (7947, m\<lparr>next_available_port := 7946\<rparr>)"
    by (simp add: node_manager_allocate_port_def
        alloc_scan.simps [of "m\<lparr>next_available_port := 7947\<rparr>"] m)
  let ?m2 = "m\<lparr>next_available_port := 7946\<rparr>"
  let ?nid = "if cfg_node_id c \<noteq> [] then strncpy0 64 (cfg_node_id c)
              else generate_node_id e 64 (server_id ?m2) (instance_count ?m2)"
  from e obtain sw where sw: "swim_init e ?nid 7946 SWIM_DEFAULT_INTERVAL = Some sw"
    by (simp add: swim_init_def Let_def swim_create_node_def swim_add_node_def)
  from e obtain coord sw1 where co: "coordinator_init e sw (cfg_is_main_node c) = Some (coord, sw1)"
    by (simp add: coordinator_init_def Let_def case_prod_beta)
  have l1: "length (nodes sw1) \<le> 1"
    using swim_init_nodes [OF sw] coordinator_init_nodes [OF co] by simp
  have s1: "states_ok sw1"
    using swim_init_nodes [OF sw] coordinator_init_nodes [OF co] by (simp add: states_ok_map)
  let ?node = "\<lparr> inst_id = ?nid, swim_port = 7946, ws_port = 7947,
                  inst_is_running = False, inst_is_main_node = cfg_is_main_node c,
                  swim = sw1, coordinator = coord,
                  messages_processed = 0, uptime_seconds = 0, start_time = 0 \<rparr>"
  let ?m3 = "?m2\<lparr>instances := ?node # instances ?m2,
                   instance_count := instance_count ?m2 + 1\<rparr>"
  let ?m4 = "snd (node_manager_start_node e ?m3 ?nid)"
  have p3: "ports_of ?m3 = [(7946, 7947)]"
    by (simp add: ports_of_def m)
  note fr = start_node_frame [of e ?m3 ?nid]
  have hn: "nodes (swim (instances ?m4 ! 0)) = nodes sw1"
    using start_node_head_nodes [of ?m3 e ?nid] by simp
  have hs: "states_ok (swim (instances ?m4 ! 0))"
    using s1 hn by (simp add: states_ok_def)
  from swim_join_ok [of "swim (instances ?m4 ! 0)" e "cfg_seed_address c" "cfg_seed_port c"]
    hn l1 hs
  obtain ok sw2 where j: "swim_join e (swim (instances ?m4 ! 0)) (cfg_seed_address c)
      (cfg_seed_port c) = Inr (ok, sw2)"
    by auto
  let ?m5 = "?m4\<lparr>instances := (instances ?m4)[0 := (instances ?m4 ! 0)\<lparr>swim := sw2\<rparr>]\<rparr>"
  have len4: "length (instances ?m4) = 1"
    using fr by (simp add: m)
  then obtain n4 where n4: "instances ?m4 = [n4]"
    by (cases "instances ?m4") auto
  have p5: "ports_of ?m5 = ports_of ?m4"
    by (rule ports_of_update_swim)
  have unf: "node_manager_create_node e m c =
      (if cfg_auto_start c
       then (if cfg_seed_address c \<noteq> [] \<and> 0 < cfg_seed_port c then Inr (Some 0, ?m5)
             else Inr (Some 0, ?m4))
       else Inr (Some 0, ?m3))"
    using e c a1 a2 sw co j
    by (simp add: node_manager_create_node_def m MAX_NODES_PER_SERVER_def Let_def ebind_def
        word_le_nat_alt)
  show ?thesis
    unfolding unf using fr p3 p5
    by (simp add: m)
qed


lemma init_small:
  assumes "alloc_ok e"
  shows "instances (the (node_manager_init e sid 7946 7948)) = []"
    and "instance_count (the (node_manager_init e sid 7946 7948)) = 0"
    and "max_instances (the (node_manager_init e sid 7946 7948)) = MAX_NODES_PER_SERVER"
    and "port_range_start (the (node_manager_init e sid 7946 7948)) = 7946"
    and "port_range_end (the (node_manager_init e sid 7946 7948)) = 7948"
    and "next_available_port (the (node_manager_init e sid 7946 7948)) = 7946"
  using assms by (simp_all add: node_manager_init_def)

lemma alloc_scan_sound:
  assumes "alloc_scan m p port = (q, True)"
    and "port_range_start m \<le> port" and "port < port_range_end m"
  shows "port_range_start m \<le> q \<and> q < port_range_end m \<and> \<not> port_in_use (instances m) q"
  using assms
proof (induction m p port rule: alloc_scan.induct)
  case (1 mgr p port)
  show ?case
  proof (cases "p < port_range_end mgr")
    case False
    with "1.prems"(1) show ?thesis
      by (simp add: alloc_scan.simps [of mgr p port])
  next
    case True
    show ?thesis
    proof (cases "port_in_use (instances mgr) port")
      case False
      with True "1.prems" show ?thesis
        by (simp add: alloc_scan.simps [of mgr p port])
    next
      case used: True
      let ?next = "if port_range_end mgr \<le> port + 1 then port_range_start mgr else port + 1"
      from True used "1.prems"(1) have r: "alloc_scan mgr (p + 1) ?next = (q, True)"
        by (simp add: alloc_scan.simps [of mgr p port])
      have u: "unat (port + 1) = Suc (unat port)"
        using "1.prems"(3) by (rule unat_inc_less)
      have lo: "port_range_start mgr \<le> ?next"
        using "1.prems"(2) u by (simp add: word_le_nat_alt)
      have hi: "?next < port_range_end mgr"
        using "1.prems"(2,3) by (auto simp: word_le_nat_alt word_less_nat_alt)
      from "1.IH" [OF True _ r lo hi] used show ?thesis by simp
    qed
  qed
qed

lemma alloc_scan_empty_range:
  "port_range_end m \<le> port_range_start m \<Longrightarrow> alloc_scan m (port_range_start m) port = (port, False)"
  by (simp add: alloc_scan.simps [of m] not_less [symmetric])

lemma allocate_port_sound:
  assumes "port_cursor_ok m"
  shows "fst (node_manager_allocate_port m) = 0
       \<or> (port_range_start m \<le> fst (node_manager_allocate_port m)
          \<and> fst (node_manager_allocate_port m) < port_range_end m
          \<and> \<not> port_in_use (instances m) (fst (node_manager_allocate_port m)))"
proof (cases "port_range_end m \<le> port_range_start m")
  case True
  then show ?thesis
    by (simp add: node_manager_allocate_port_def alloc_scan_empty_range)
next
  case False
  with assms have c: "port_range_start m \<le> next_available_port m"
    "next_available_port m < port_range_end m"
    by (simp_all add: port_cursor_ok_def)
  obtain q found where s: "alloc_scan m (port_range_start m) (next_available_port m) = (q, found)"
    by (cases "alloc_scan m (port_range_start m) (next_available_port m)")
  show ?thesis
  proof (cases found)
    case True
    with alloc_scan_sound [OF _ c] s show ?thesis
      by (simp add: node_manager_allocate_port_def)
  next
    case False
    with s show ?thesis
      by (simp add: node_manager_allocate_port_def)
  qed
qed

lemma init_cursor_ok:
  "node_manager_init e sid ps pe = Some m \<Longrightarrow> port_cursor_ok m"
  by (auto simp: node_manager_init_def port_cursor_ok_def split: if_splits)

lemma allocate_port_cursor_ok:
  assumes "port_cursor_ok m"
  shows "port_cursor_ok (snd (node_manager_allocate_port m))"
proof (cases "port_range_end m \<le> port_range_start m")
  case True
  then show ?thesis
    by (simp add: node_manager_allocate_port_def alloc_scan_empty_range port_cursor_ok_def)
next
  case False
  with assms have c: "port_range_start m \<le> next_available_port m"
    "next_available_port m < port_range_end m"
    by (simp_all add: port_cursor_ok_def)
  obtain q found where s: "alloc_scan m (port_range_start m) (next_available_port m) = (q, found)"
    by (cases "alloc_scan m (port_range_start m) (next_available_port m)")
  show ?thesis
  proof (cases found)
    case True
    with alloc_scan_sound [OF _ c] s have q: "port_range_start m \<le> q" "q < port_range_end m"
      by simp_all
    have u: "unat (q + 1) = Suc (unat q)"
      using q(2) by (rule unat_inc_less)
    from q u True s show ?thesis
      by (auto simp: node_manager_allocate_port_def port_cursor_ok_def word_le_nat_alt
          word_less_nat_alt)
  next
    case False
    with s assms show ?thesis
      by (simp add: node_manager_allocate_port_def)
  qed
qed

text \<open>
  C3, as stated, fails. A manager with the range \<open>[7946, 7948)\<close> has two ports, and one
  instance with auto-allocated ports takes both (one for membership, one for the
  application port). The second create call already returns failure, with total 1.
\<close>

theorem two_port_range_counterexample:
  "node_manager_create_node env_ok mgr_small cfg_auto = Inr (Some 0, mgr_small1)
   \<and> node_manager_create_node env_ok mgr_small1 cfg_auto = Inr (None, mgr_small1)
   \<and> node_manager_total_count mgr_small1 = 1"
proof -
  have e: "alloc_ok env_ok" "bind_ok env_ok"
    by (simp_all add: env_ok_def)
  have c: "cfg_swim_port cfg_auto = 0" "cfg_ws_port cfg_auto = 0"
    by (simp_all add: cfg_auto_def)
  from create_first [OF e c init_small [OF e(1), of "''srv''"]]
  obtain m1 where m1: "node_manager_create_node env_ok mgr_small cfg_auto = Inr (Some 0, m1)"
    "ports_of m1 = [(7946, 7947)]" "instance_count m1 = 1"
    "port_range_start m1 = 7946" "port_range_end m1 = 7948" "next_available_port m1 = 7946"
    unfolding mgr_small_def by blast
  from m1(1) have eq: "mgr_small1 = m1"
    by (simp add: mgr_small1_def)
  from create_exhausted [OF m1(2) m1(4) m1(5) m1(6) c(1), of env_ok] m1(1) m1(3) eq
  show ?thesis
    by (simp add: node_manager_total_count_def)
qed

text \<open>
  C3, amended. For an Instance Manager configured with the port range \<open>[7946, 7948)\<close>, the
  first create call with auto-allocated ports succeeds and takes both ports of the range
  (7946 for membership, 7947 for the application port); the next create call with an
  auto-allocated membership port returns failure and leaves the manager state unchanged,
  with total instance count equal to 1.
\<close>

theorem two_port_range_holds_one_instance:
  assumes "alloc_ok e0" and "alloc_ok e1" and "bind_ok e1"
    and "cfg_swim_port c1 = 0" and "cfg_ws_port c1 = 0" and "cfg_swim_port c2 = 0"
  shows "let m0 = the (node_manager_init e0 sid 7946 7948);
             r1 = node_manager_create_node e1 m0 c1;
             m1 = snd (projr r1) in
           r1 = Inr (Some 0, m1)
         \<and> ports_of m1 = [(7946, 7947)]
         \<and> node_manager_total_count m1 = 1
         \<and> node_manager_create_node e2 m1 c2 = Inr (None, m1)"
proof -
  let ?m0 = "the (node_manager_init e0 sid 7946 7948)"
  from create_first [OF assms(2,3,4,5) init_small [OF assms(1), of sid]]
  obtain m1 where m1: "node_manager_create_node e1 ?m0 c1 = Inr (Some 0, m1)"
    "ports_of m1 = [(7946, 7947)]" "instance_count m1 = 1"
    "port_range_start m1 = 7946" "port_range_end m1 = 7948" "next_available_port m1 = 7946"
    by blast
  from create_exhausted [OF m1(2) m1(4) m1(5) m1(6) assms(6), of e2] m1(1) m1(2) m1(3)
  show ?thesis
    by (simp add: node_manager_total_count_def Let_def)
qed

theorem two_port_range_holds_one_instance_witness:
  "alloc_ok env_ok \<and> bind_ok env_ok
   \<and> cfg_swim_port cfg_auto = 0 \<and> cfg_ws_port cfg_auto = 0
   \<and> (let r1 = node_manager_create_node env_ok mgr_small cfg_auto;
            m1 = snd (projr r1) in
          r1 = Inr (Some 0, m1)
        \<and> ports_of m1 = [(7946, 7947)]
        \<and> node_manager_total_count m1 = 1
        \<and> node_manager_create_node env_ok m1 cfg_auto = Inr (None, m1))"
proof -
  have e: "alloc_ok env_ok" "bind_ok env_ok"
    by (simp_all add: env_ok_def)
  have c: "cfg_swim_port cfg_auto = 0" "cfg_ws_port cfg_auto = 0"
    by (simp_all add: cfg_auto_def)
  from two_port_range_holds_one_instance [OF e(1) e(1) e(2) c(1) c(2) c(1), of "''srv''" env_ok]
    e c
  show ?thesis
    by (simp add: mgr_small_def Let_def)
qed

text \<open>
  C6. The allocator itself does what the claim says (\<open>allocate_port_sound\<close> above: the
  result is 0 or a port of the range that no owned instance holds, for every manager
  whose cursor is as \<open>node_manager_init\<close> and the allocator leave it). The default range
  does not: \<open>node_manager_init\<close> computes the default upper bound from its argument
  \<open>port_start\<close>, not from the lower bound it has just defaulted, so a manager created with
  both bounds 0 has the range from 7946 to 100, which is empty, and its allocator returns
  0 at once. Only a manager created with \<open>port_start = 7946\<close> and \<open>port_end = 0\<close> gets 8046.
\<close>

theorem default_range_upper_bound:
  "port_range_start mgr_default = 7946
   \<and> port_range_end mgr_default = 100
   \<and> next_available_port mgr_default = 7946
   \<and> node_manager_allocate_port mgr_default = (0, mgr_default)
   \<and> port_range_end (the (node_manager_init env_ok ''srv'' 7946 0)) = 8046"
  by (simp add: mgr_default_def node_manager_init_def env_ok_def node_manager_allocate_port_def
      alloc_scan.simps word_less_nat_alt)

section \<open>Malformed datagrams\<close>

lemma short_datagram_dropped:
  "length data < SIZEOF_HEADER \<Longrightarrow> swim_handle_message e ctx frm data = Inr ctx"
  by (simp add: swim_handle_message_def)

text \<open>
  C2. A datagram shorter than the header is dropped (\<open>short_datagram_dropped\<close>). The Sync
  case has no check of its own: for a datagram that is exactly a 76-byte header of type
  Sync the handler loads \<open>sync->node_count\<close> from offsets 76 to 79, and for a Sync
  datagram that declares two records and carries one it loads the second record from
  beyond the received bytes.
\<close>

theorem sync_reads_past_datagram:
  "length sync_header_bytes = 76
   \<and> swim_handle_message env_ok peer_ctx (''10.0.0.2'', 7947) sync_header_bytes = Inl OverRead
   \<and> length sync_count2 = 220
   \<and> swim_handle_message env_ok peer_ctx (''10.0.0.2'', 7947) sync_count2 = Inl OverRead"
  by (simp add: swim_handle_message_def wire_eval msg_type_defs peer_ctx_def eval_defs
      refresh_sender_def sync_loop.simps)

section \<open>Counts by state\<close>

lemma count_state_acc:
  "count_state ns s c = c + count_state ns s 0"
proof (induction ns arbitrary: c)
  case Nil
  then show ?case by simp
next
  case (Cons n ns)
  show ?case
    using Cons.IH [of "c + 1"] Cons.IH [of c] Cons.IH [of 1]
    by simp
qed

lemma counts_partition_valid_states:
  assumes "\<forall>n\<in>set (nodes ctx). node_state n \<in>
             {NODE_STATE_ALIVE, NODE_STATE_SUSPECT, NODE_STATE_DEAD, NODE_STATE_LEFT}"
  shows "swim_get_node_count ctx NODE_STATE_ALIVE + swim_get_node_count ctx NODE_STATE_SUSPECT
         + swim_get_node_count ctx NODE_STATE_DEAD + swim_get_node_count ctx NODE_STATE_LEFT
         = of_nat (length (nodes ctx))"
proof -
  have "(\<forall>n\<in>set ns. node_state n \<in> {0, 1, 2, 3}) \<Longrightarrow>
        count_state ns 0 0 + count_state ns 1 0 + count_state ns 2 0 + count_state ns 3 0
          = of_nat (length ns)" for ns
  proof (induction ns)
    case Nil
    then show ?case by simp
  next
    case (Cons n ns)
    then have ih: "count_state ns 0 0 + count_state ns 1 0 + count_state ns 2 0 + count_state ns 3 0
          = of_nat (length ns)"
      and st: "node_state n = 0 \<or> node_state n = 1 \<or> node_state n = 2 \<or> node_state n = 3"
      by simp_all
    note acc = count_state_acc [of ns _ 1]
    from st show ?case
      using ih by (elim disjE) (simp_all add: acc algebra_simps)
  qed
  with assms show ?thesis
    by (simp add: swim_get_node_count_def node_state_defs)
qed

text \<open>
  C7. The four counts add up to the number of node records as long as every record is in
  one of the four states (\<open>counts_partition_valid_states\<close>). The Sync case stores the state
  byte of a record into \<open>node->state\<close> through a cast, without a range check: after a Sync
  datagram with one record whose state byte is 4, the engine holds three node records and
  the four counts add up to 2.
\<close>

theorem sync_state_byte_breaks_partition:
  "\<not> isl (swim_handle_message env_ok peer_ctx (''10.0.0.2'', 7947) sync_state4)
   \<and> map node_id (nodes after_state4) = [''c'', ''b'', ''a'']
   \<and> map node_state (nodes after_state4) = [4, 0, 0]
   \<and> node_count after_state4 = 3
   \<and> swim_get_node_count after_state4 NODE_STATE_ALIVE
       + swim_get_node_count after_state4 NODE_STATE_SUSPECT
       + swim_get_node_count after_state4 NODE_STATE_DEAD
       + swim_get_node_count after_state4 NODE_STATE_LEFT = 2"
  by (simp add: after_state4_def swim_handle_message_def wire_eval msg_type_defs peer_ctx_def
      eval_defs refresh_sender_def sync_loop.simps swim_get_node_count_def)

section \<open>The round counter of the gossip round\<close>

text \<open>One round seen alone: a round that selects a target advances the counter, sends its
  Sync exactly when the counter reaches 5, and the Sync carries at most 50 records.\<close>

lemma gossip_round_counter:
  assumes "swim_gossip_round e sc ctx = Inr (sc', ctx')"
    and "swim_check_timeouts e ctx = Inr c1"
    and "swim_select_random_node e c1 = Some t"
  shows "sc' = (if 5 \<le> sc + 1 then 0 else sc + 1)"
  using assms
  by (auto simp: swim_gossip_round_def Let_def ebind_def split: if_splits sum.splits)

lemma gossip_round_no_target:
  assumes "swim_check_timeouts e ctx = Inr c1"
    and "swim_select_random_node e c1 = None"
  shows "swim_gossip_round e sc ctx = Inr (sc, c1)"
  using assms by (simp add: swim_gossip_round_def Let_def ebind_def)

lemma send_sync_at_most_50:
  assumes "swim_send_sync e ctx t = Inr sent"
  shows "\<exists>h n us. last (outbox sent) = (node_address (nodes ctx ! t), node_port (nodes ctx ! t), Sync h n us)
           \<and> length us \<le> 50 \<and> n = of_nat (length us)"
  using assms
  by (auto simp: swim_send_sync_def Let_def sendto_def split: if_splits)

text \<open>
  C9. Two engines \<open>a\<close> and \<open>b\<close> in one process, each knowing the other, run their gossip
  rounds in turn, five rounds each, starting with the counter at 0. Every round selects
  the peer as target. The counter is the one static variable of \<open>swim_gossip_round\<close>, so
  it reaches 5 on the fifth round of the process: engine \<open>a\<close> sends its Sync with its third
  Ping and only a Ping on its own fifth round, and engine \<open>b\<close> sends its Sync on the tenth
  round of the process.
\<close>

theorem sync_counter_shared_between_engines:
  "\<not> isl (process_rounds env_ok [0, 1, 0, 1, 0, 1, 0, 1, 0, 1] (0, [peer_ctx, peer_b]))
   \<and> map sent_types
        (snd (projr (process_rounds env_ok [0, 1, 0, 1, 0, 1, 0, 1, 0, 1] (0, [peer_ctx, peer_b]))))
      = [[SWIM_MSG_PING, SWIM_MSG_PING, SWIM_MSG_PING, SWIM_MSG_SYNC, SWIM_MSG_PING, SWIM_MSG_PING],
         [SWIM_MSG_PING, SWIM_MSG_PING, SWIM_MSG_PING, SWIM_MSG_PING, SWIM_MSG_PING, SWIM_MSG_SYNC]]"
  by (simp add: gossip_eval peer_ctx_def peer_b_def eval_defs)

end
